theory Spec2Isabelle
  imports
    Complex_Main
    "HOL-Library.Word"
    "HOL-Library.Char_ord"
    "HOL-Library.List_Lexorder"
    "HOL-Library.Multiset"
begin

section \<open>JavaScript strings\<close>

text \<open>
  A JavaScript string is a sequence of UTF-16 code units. The model uses \<open>string\<close>
  (a list of \<open>char\<close>), so it covers the strings whose code units are below 256;
  \<open>of_char\<close> is \<open>charCodeAt\<close>. The character classes are the restrictions of
  \<open>\s\<close>, \<open>\w\<close> and of the line terminators to that range, and \<open>toLowerCase\<close>
  is the Latin-1 part of the Unicode mapping.
\<close>

definition isSpace :: "char \<Rightarrow> bool" where
  "isSpace c = (of_char c \<in> {9, 10, 11, 12, 13, 32, 160 :: nat})"

definition isLineTerminator :: "char \<Rightarrow> bool" where
  "isLineTerminator c = (of_char c \<in> {10, 13 :: nat})"

definition isWordChar :: "char \<Rightarrow> bool" where
  "isWordChar c =
     (let n = of_char c :: nat
      in (48 \<le> n \<and> n \<le> 57) \<or> (65 \<le> n \<and> n \<le> 90) \<or> n = 95 \<or> (97 \<le> n \<and> n \<le> 122))"

definition isLowerAZ :: "char \<Rightarrow> bool" where
  "isLowerAZ c = (let n = of_char c :: nat in 97 \<le> n \<and> n \<le> 122)"

definition isUpperAZ :: "char \<Rightarrow> bool" where
  "isUpperAZ c = (let n = of_char c :: nat in 65 \<le> n \<and> n \<le> 90)"

definition lowerChar :: "char \<Rightarrow> char" where
  "lowerChar c =
     (let n = of_char c :: nat
      in if (65 \<le> n \<and> n \<le> 90) \<or> (192 \<le> n \<and> n \<le> 222 \<and> n \<noteq> 215)
         then char_of (n + 32) else c)"

definition toLowerCase :: "string \<Rightarrow> string" where
  "toLowerCase s = map lowerChar s"

definition trim :: "string \<Rightarrow> string" where
  "trim s = rev (dropWhile isSpace (rev (dropWhile isSpace s)))"

fun startsWith :: "string \<Rightarrow> string \<Rightarrow> bool" where
  "startsWith s [] = True"
| "startsWith [] (p # ps) = False"
| "startsWith (c # cs) (p # ps) = (c = p \<and> startsWith cs ps)"

text \<open>\<open>s.includes(sub)\<close>: \<open>sub\<close> occurs in \<open>s\<close> as a contiguous run.\<close>

fun includesStr :: "string \<Rightarrow> string \<Rightarrow> bool" where
  "includesStr [] sub = (sub = [])"
| "includesStr (c # cs) sub = (startsWith (c # cs) sub \<or> includesStr cs sub)"

fun join :: "string \<Rightarrow> string list \<Rightarrow> string" where
  "join sep [] = []"
| "join sep [x] = x"
| "join sep (x # y # ys) = x @ sep @ join sep (y # ys)"

text \<open>
  \<open>s.split(re)\<close> for a regular expression \<open>re\<close> of the form \<open>[class]+\<close>: the pieces
  between the maximal runs of class characters. A run at the start or at the end of
  \<open>s\<close> leaves an empty piece there, and the empty string splits into one empty piece.
\<close>

function splitRuns :: "(char \<Rightarrow> bool) \<Rightarrow> string \<Rightarrow> string \<Rightarrow> string list" where
  "splitRuns p [] acc = [rev acc]"
| "splitRuns p (c # cs) acc =
     (if p c then rev acc # splitRuns p (dropWhile p cs) []
      else splitRuns p cs (c # acc))"
  by pat_completeness auto
termination
  by (relation "measure (\<lambda>(p, s, acc). length s)")
     (auto simp: le_imp_less_Suc length_dropWhile_le)

definition splitRegex :: "(char \<Rightarrow> bool) \<Rightarrow> string \<Rightarrow> string list" where
  "splitRegex p s = splitRuns p s []"

text \<open>\<open>s.split(sep)\<close> for a one-character separator: every separator ends a piece.\<close>

fun splitChar :: "char \<Rightarrow> string \<Rightarrow> string \<Rightarrow> string list" where
  "splitChar sep [] acc = [rev acc]"
| "splitChar sep (c # cs) acc =
     (if c = sep then rev acc # splitChar sep cs [] else splitChar sep cs (c # acc))"

text \<open>\<open>s.replace(/[class]/g, ' ')\<close>.\<close>

definition replaceWithSpace :: "(char \<Rightarrow> bool) \<Rightarrow> string \<Rightarrow> string" where
  "replaceWithSpace p s = map (\<lambda>c. if p c then CHR '' '' else c) s"

text \<open>
  \<open>s.replace(/([a-z])([A-Z])/g, '$1 $2')\<close>: a space goes between a lower-case letter
  and the upper-case letter after it. Two matches never overlap, since a match ends with
  an upper-case letter and the next one starts with a lower-case letter.
\<close>

fun splitCamelCase :: "string \<Rightarrow> string" where
  "splitCamelCase (a # b # cs) =
     (if isLowerAZ a \<and> isUpperAZ b then a # CHR '' '' # splitCamelCase (b # cs)
      else a # splitCamelCase (b # cs))"
| "splitCamelCase cs = cs"

text \<open>\<open>Number.prototype.toString(16)\<close> on a natural number.\<close>

definition hexDigit :: "nat \<Rightarrow> char" where
  "hexDigit d = (if d < 10 then char_of (48 + d) else char_of (87 + d))"

fun toString16 :: "nat \<Rightarrow> string" where
  "toString16 n = (if n < 16 then [hexDigit n] else toString16 (n div 16) @ [hexDigit (n mod 16)])"

declare toString16.simps [simp del]

text \<open>
  \<open>xs.sort(cmp)\<close> with a comparison function: a stable insertion sort, which is what
  the language prescribes for a consistent comparison (a negative result puts the first
  argument first, equal elements keep their order).
\<close>

fun insertBy :: "('a \<Rightarrow> 'a \<Rightarrow> real) \<Rightarrow> 'a \<Rightarrow> 'a list \<Rightarrow> 'a list" where
  "insertBy cmp x [] = [x]"
| "insertBy cmp x (y # ys) = (if cmp x y \<le> 0 then x # y # ys else y # insertBy cmp x ys)"

definition sortBy :: "('a \<Rightarrow> 'a \<Rightarrow> real) \<Rightarrow> 'a list \<Rightarrow> 'a list" where
  "sortBy cmp xs = foldr (insertBy cmp) xs []"

section \<open>JavaScript numbers\<close>

text \<open>
  A JavaScript number is a double. The model keeps the three non-finite values and the
  overflow to an infinity beyond the largest double. A finite result is the exact real
  number, so rounding and underflow are idealised.
\<close>

datatype jsnum = Fin real | PosInf | NegInf | NaN

section \<open>Data model\<close>

text \<open>\<open>lastModified\<close> is the wall clock at creation and is left out of the metadata.\<close>

record ChunkMetadata =
  level :: nat
  wordCount :: nat

record DocumentationChunk =
  chunkId :: string
  filePath :: string
  sectionHeading :: string
  content :: string
  embedding :: "jsnum list option"
  metadata :: ChunkMetadata

record CodeContext =
  selectedText :: string
  fileName :: string
  functionName :: "string option"
  className :: "string option"
  "imports" :: "string list"
  surroundingContext :: string
  language :: string

record Citation =
  cit_filePath :: string
  cit_sectionHeading :: string
  relevanceScore :: real

record ExplanationResult =
  explanation :: string
  citations :: "Citation list"
  confidence :: real
  hasRelevantDocs :: bool

record ExplanationCache =
  key :: string
  entry_explanation :: string
  entry_citations :: "Citation list"
  timestamp :: int
  ttl :: int

text \<open>A thrown \<open>Error\<close> object, with its message.\<close>

datatype error = Error string

text \<open>\<open>x || ''\<close> and the truth value of an optional string.\<close>

definition orEmpty :: "string option \<Rightarrow> string" where
  "orEmpty x = (case x of None \<Rightarrow> [] | Some s \<Rightarrow> s)"

definition truthy :: "string option \<Rightarrow> bool" where
  "truthy x = (case x of None \<Rightarrow> False | Some s \<Rightarrow> s \<noteq> [])"

section \<open>The explanation cache\<close>

text \<open>
  Times are milliseconds since the epoch. \<open>sha256\<close> is the hex digest of Node's
  \<open>crypto\<close> module, a parameter of the model.
\<close>

record ExplanationCacheManager =
  cache :: "string \<rightharpoonup> ExplanationCache"
  defaultTTL :: int

definition newCacheManager :: ExplanationCacheManager where
  "newCacheManager = \<lparr>cache = Map.empty, defaultTTL = 30 * 60 * 1000\<rparr>"

definition generateCacheKey :: "(string \<Rightarrow> string) \<Rightarrow> CodeContext \<Rightarrow> string" where
  "generateCacheKey sha256 context =
     sha256 (join ''|'' [fileName context, orEmpty (functionName context),
                         orEmpty (className context), selectedText context])"

definition isValidEntry :: "int \<Rightarrow> ExplanationCache \<Rightarrow> bool" where
  "isValidEntry now entry = (now < timestamp entry + ttl entry)"

definition store ::
  "(string \<Rightarrow> string) \<Rightarrow> int \<Rightarrow> ExplanationCacheManager \<Rightarrow> CodeContext \<Rightarrow> string \<Rightarrow>
   Citation list \<Rightarrow> int option \<Rightarrow> ExplanationCacheManager" where
  "store sha256 now m context expl cits ttlArg =
     (let k = generateCacheKey sha256 context;
          cacheEntry = \<lparr>key = k, entry_explanation = expl, entry_citations = cits,
                        timestamp = now,
                        ttl = (case ttlArg of None \<Rightarrow> defaultTTL m
                               | Some t \<Rightarrow> if t = 0 then defaultTTL m else t)\<rparr>
      in m\<lparr>cache := (cache m)(k \<mapsto> cacheEntry)\<rparr>)"

definition retrieve ::
  "(string \<Rightarrow> string) \<Rightarrow> int \<Rightarrow> ExplanationCacheManager \<Rightarrow> CodeContext \<Rightarrow>
   ExplanationCache option \<times> ExplanationCacheManager" where
  "retrieve sha256 now m context =
     (let k = generateCacheKey sha256 context
      in case cache m k of
           None \<Rightarrow> (None, m)
         | Some entry \<Rightarrow>
             if \<not> isValidEntry now entry then (None, m\<lparr>cache := (cache m)(k := None)\<rparr>)
             else (Some entry, m))"

definition invalidateFile :: "string \<Rightarrow> ExplanationCacheManager \<Rightarrow> ExplanationCacheManager" where
  "invalidateFile path m =
     m\<lparr>cache := (\<lambda>k. case cache m k of
                        None \<Rightarrow> None
                      | Some entry \<Rightarrow>
                          if list_ex (\<lambda>citation. cit_filePath citation = path) (entry_citations entry)
                          then None else Some entry)\<rparr>"

definition cleanupExpired :: "int \<Rightarrow> ExplanationCacheManager \<Rightarrow> ExplanationCacheManager" where
  "cleanupExpired now m =
     m\<lparr>cache := (\<lambda>k. case cache m k of
                        None \<Rightarrow> None
                      | Some entry \<Rightarrow> if \<not> isValidEntry now entry then None else Some entry)\<rparr>"

definition clear :: "ExplanationCacheManager \<Rightarrow> ExplanationCacheManager" where
  "clear m = m\<lparr>cache := Map.empty\<rparr>"

definition setDefaultTTL :: "int \<Rightarrow> ExplanationCacheManager \<Rightarrow> ExplanationCacheManager" where
  "setDefaultTTL t m = (if t > 0 then m\<lparr>defaultTTL := t\<rparr> else m)"

section \<open>The engine\<close>

text \<open>
  The engine's state: its cache manager and the registry of requests in flight. A pending
  promise of the registry is represented by the result it resolves to, which is what
  \<open>await\<close> returns to a second caller.
\<close>

record RAGEngine =
  cacheManager :: ExplanationCacheManager
  requestDeduplication :: "string \<rightharpoonup> ExplanationResult"

subsection \<open>The context hash\<close>

text \<open>
  \<open>hash = ((hash << 5) - hash) + char; hash = hash & hash\<close> on a 32-bit integer.
  \<open>imports.sort()\<close> without a comparison function orders strings by their code units
  and sorts the array of the caller's context in place.
\<close>

definition hashStep :: "32 word \<Rightarrow> char \<Rightarrow> 32 word" where
  "hashStep h c = (push_bit 5 h - h) + of_nat (of_char c)"

definition hashString :: "string \<Rightarrow> 32 word" where
  "hashString s = foldl hashStep 0 s"

definition sortImports :: "CodeContext \<Rightarrow> CodeContext" where
  "sortImports context = context\<lparr>imports := sort (imports context)\<rparr>"

definition hashInput :: "CodeContext \<Rightarrow> string" where
  "hashInput context =
     join ''|'' [selectedText context, fileName context, orEmpty (functionName context),
                 orEmpty (className context), join '','' (sort (imports context)),
                 language context]"

definition generateContextHash :: "CodeContext \<Rightarrow> string" where
  "generateContextHash context = toString16 (nat \<bar>sint (hashString (hashInput context))\<bar>)"

subsection \<open>Query construction and retrieval\<close>

definition queryStopWords :: "string list" where
  "queryStopWords = [''const'', ''let'', ''var'', ''function'', ''class'', ''return'', ''if'',
                     ''else'', ''for'', ''while'', ''result'']"

definition buildQueryFromContext :: "CodeContext \<Rightarrow> string" where
  "buildQueryFromContext context =
     (let fnPart = (if truthy (functionName context) then [orEmpty (functionName context)] else []);
          clsPart = (if truthy (className context) then [orEmpty (className context)] else []);
          selectedWords =
            take 3 (filter (\<lambda>word. length word > 2 \<and> word \<notin> set queryStopWords)
              (splitRegex isSpace (toLowerCase (splitCamelCase
                (replaceWithSpace (\<lambda>c. \<not> isWordChar c \<and> \<not> isSpace c) (selectedText context))))));
          relevantImports =
            take 2 (filter (\<lambda>imp. \<not> startsWith imp ''.'' \<and> \<not> includesStr imp ''node_modules'')
              (imports context))
      in join '' '' (filter (\<lambda>part. part \<noteq> []) (fnPart @ clsPart @ selectedWords @ relevantImports)))"

text \<open>
  The comparison by file path, then by section heading. \<open>localeCompare\<close> is the
  platform's collation and a parameter of the model.
\<close>

definition chunkCompare ::
  "(string \<Rightarrow> string \<Rightarrow> real) \<Rightarrow> DocumentationChunk \<Rightarrow> DocumentationChunk \<Rightarrow> real" where
  "chunkCompare localeCompare a b =
     (let fileComparison = localeCompare (filePath a) (filePath b)
      in if fileComparison \<noteq> 0 then fileComparison
         else localeCompare (sectionHeading a) (sectionHeading b))"

text \<open>
  \<open>searchSimilar\<close> is the vector store's search, called with \<open>topK = 5\<close>; an error it
  throws is caught here and becomes the empty list.
\<close>

definition retrieveRelevantDocsWithConsistentRanking ::
  "(string \<Rightarrow> string \<Rightarrow> real) \<Rightarrow> (string \<Rightarrow> int \<Rightarrow> error + DocumentationChunk list) \<Rightarrow>
   string \<Rightarrow> DocumentationChunk list" where
  "retrieveRelevantDocsWithConsistentRanking localeCompare searchSimilar query =
     (case searchSimilar query 5 of
        Inl err \<Rightarrow> []
      | Inr relevantChunks \<Rightarrow> sortBy (chunkCompare localeCompare) relevantChunks)"

subsection \<open>Enforcement\<close>

definition calculateRelevanceScore :: "CodeContext \<Rightarrow> DocumentationChunk \<Rightarrow> real" where
  "calculateRelevanceScore context doc =
     (let docContentLower = toLowerCase (content doc);
          docHeadingLower = toLowerCase (sectionHeading doc);
          fnScore =
            (if truthy (functionName context) \<and>
                (includesStr docContentLower (toLowerCase (orEmpty (functionName context))) \<or>
                 includesStr docHeadingLower (toLowerCase (orEmpty (functionName context))))
             then 10 else 0);
          clsScore =
            (if truthy (className context) \<and>
                (includesStr docContentLower (toLowerCase (orEmpty (className context))) \<or>
                 includesStr docHeadingLower (toLowerCase (orEmpty (className context))))
             then 10 else 0);
          impScore =
            (\<Sum>imp \<leftarrow> imports context.
               if includesStr docContentLower (toLowerCase imp) then 5 else 0);
          selectedWords =
            filter (\<lambda>word. length word > 3 \<and>
                      word \<notin> set [''function'', ''class'', ''const'', ''let'', ''var''])
              (splitRegex isSpace (toLowerCase (selectedText context)));
          wordScore =
            (\<Sum>word \<leftarrow> selectedWords.
               (if includesStr docContentLower word then 2 else 0) +
               (if includesStr docHeadingLower word then 3 else 0))
      in fnScore + clsScore + impScore + wordScore
         + min (real (wordCount (metadata doc)) / 50) 2)"

definition genericPhrases :: "string list" where
  "genericPhrases = [''todo'', ''tbd'', ''to be determined'', ''placeholder'', ''coming soon'',
                     ''under construction'', ''not implemented'']"

text \<open>The result is the pair of \<open>hasValidDocumentation\<close> and \<open>fallbackResponse\<close>.\<close>

definition enforceDocumentationRequirement ::
  "CodeContext \<Rightarrow> DocumentationChunk list \<Rightarrow> bool \<times> string" where
  "enforceDocumentationRequirement context docs =
     (if docs = [] then (False, ''Not documented.'')
      else
        let relevantDocs = filter (\<lambda>doc. calculateRelevanceScore context doc \<ge> 0.1) docs
        in if relevantDocs = [] then (False, ''Not documented.'')
           else
             let substantialDocs = filter (\<lambda>doc. length (trim (content doc)) \<ge> 20) relevantDocs
             in if substantialDocs = [] then (False, ''Not documented.'')
                else
                  let hasGenericContent =
                        list_ex (\<lambda>doc. list_ex (\<lambda>phrase. includesStr (toLowerCase (content doc)) phrase)
                                          genericPhrases) substantialDocs
                  in if hasGenericContent \<and> length substantialDocs = 1
                     then (False, ''Not documented.'')
                     else (True, []))"

subsection \<open>Generation, grounding, citations and confidence\<close>

definition isSentenceEnd :: "char \<Rightarrow> bool" where
  "isSentenceEnd c = (c = CHR ''.'' \<or> c = CHR ''!'' \<or> c = CHR ''?'')"

definition generateImprovedExplanation :: "CodeContext \<Rightarrow> DocumentationChunk list \<Rightarrow> string" where
  "generateImprovedExplanation context docs =
     (case docs of
        [] \<Rightarrow> ''Not documented.''
      | primaryDoc # rest \<Rightarrow>
          let intro =
                (if truthy (functionName context)
                 then ''The function '' @ [CHR 0x22] @ orEmpty (functionName context) @ [CHR 0x22] @ '' ''
                 else if truthy (className context)
                 then ''The class '' @ [CHR 0x22] @ orEmpty (className context) @ [CHR 0x22] @ '' ''
                 else ''This code '');
              sentences = filter (\<lambda>s. length (trim s) > 10)
                            (splitRegex isSentenceEnd (trim (content primaryDoc)));
              codeWords = filter (\<lambda>w. length w > 2)
                            (splitRegex (\<lambda>c. \<not> isWordChar c) (toLowerCase (selectedText context)));
              matching = filter (\<lambda>sentence.
                            filter (\<lambda>word. includesStr (toLowerCase sentence) word) codeWords \<noteq> [])
                          sentences;
              body =
                (case sentences of
                   [] \<Rightarrow> ''is mentioned in the '' @ sectionHeading primaryDoc @ '' section.''
                 | first # others \<Rightarrow>
                     let bestSentence = (case matching of [] \<Rightarrow> first | m # ms \<Rightarrow> m)
                     in ''is documented as: '' @ [CHR 0x22] @ trim bestSentence @ [CHR 0x22] @ ''.'')
          in intro @ body @ '' (Source: '' @ filePath primaryDoc @ '' - ''
               @ sectionHeading primaryDoc @ '')'')"

definition generateDeterministicExplanation ::
  "(string \<Rightarrow> string \<Rightarrow> real) \<Rightarrow> CodeContext \<Rightarrow> DocumentationChunk list \<Rightarrow> string" where
  "generateDeterministicExplanation localeCompare context docs =
     (if docs = [] then ''Not documented.''
      else generateImprovedExplanation context (sortBy (chunkCompare localeCompare) docs))"

definition groundingStopWords :: "string list" where
  "groundingStopWords =
     [''this'', ''that'', ''with'', ''from'', ''they'', ''have'', ''been'', ''will'', ''were'',
      ''said'', ''each'', ''which'', ''their'', ''time'', ''would'', ''there'', ''could'',
      ''other'', ''more'', ''very'', ''what'', ''know'', ''just'', ''first'', ''into'', ''over'',
      ''think'', ''also'', ''your'', ''work'', ''life'', ''only'', ''can'', ''still'', ''should'',
      ''after'', ''being'', ''now'', ''made'', ''before'', ''here'', ''through'', ''when'',
      ''where'', ''much'', ''some'', ''these'', ''many'', ''then'', ''them'', ''well'', ''were'']"

definition validateExplanationGrounding :: "string \<Rightarrow> DocumentationChunk list \<Rightarrow> bool" where
  "validateExplanationGrounding expl docs =
     (if includesStr expl ''Not documented.'' then True
      else
        let docContents = join '' '' (map (\<lambda>doc. toLowerCase (content doc)) docs);
            explanationWords =
              filter (\<lambda>word. length word > 3 \<and> word \<notin> set groundingStopWords)
                (splitRegex isSpace
                  (replaceWithSpace (\<lambda>c. \<not> isWordChar c \<and> \<not> isSpace c) (toLowerCase expl)))
        in if explanationWords = [] then False
           else
             let matchingWords = length (filter (\<lambda>word. includesStr docContents word) explanationWords)
             in real matchingWords / real (length explanationWords) \<ge> 0.3)"

definition citationCompare :: "(string \<Rightarrow> string \<Rightarrow> real) \<Rightarrow> Citation \<Rightarrow> Citation \<Rightarrow> real" where
  "citationCompare localeCompare a b =
     (let scoreComparison = relevanceScore b - relevanceScore a
      in if \<bar>scoreComparison\<bar> > 0.001 then scoreComparison
         else
           let fileComparison = localeCompare (cit_filePath a) (cit_filePath b)
           in if fileComparison \<noteq> 0 then fileComparison
              else localeCompare (cit_sectionHeading a) (cit_sectionHeading b))"

definition extractCitationsWithConsistentOrdering ::
  "(string \<Rightarrow> string \<Rightarrow> real) \<Rightarrow> DocumentationChunk list \<Rightarrow> Citation list" where
  "extractCitationsWithConsistentOrdering localeCompare docs =
     sortBy (citationCompare localeCompare)
       (map (\<lambda>(index, doc).
               \<lparr>cit_filePath = filePath doc, cit_sectionHeading = sectionHeading doc,
                relevanceScore = max 0.1 (1.0 - real index * 0.2)\<rparr>)
            (enumerate 0 docs))"

definition calculateDeterministicConfidence ::
  "(string \<Rightarrow> string \<Rightarrow> real) \<Rightarrow> DocumentationChunk list \<Rightarrow> real" where
  "calculateDeterministicConfidence localeCompare docs =
     (if docs = [] then 0
      else
        let sortedDocs = sortBy (chunkCompare localeCompare) docs;
            baseConfidence = min (real (length sortedDocs) / 3) 1.0;
            avgWordCount = real (\<Sum>doc \<leftarrow> sortedDocs. wordCount (metadata doc))
                           / real (length sortedDocs);
            qualityMultiplier = min (avgWordCount / 50) 1.2
        in min (baseConfidence * qualityMultiplier) 1.0)"

subsection \<open>The error fallback\<close>

text \<open>\<open>error.message || error.toString()\<close>: an \<open>Error\<close> with no message prints as its name.\<close>

definition errorMessage :: "error \<Rightarrow> string" where
  "errorMessage err = (case err of Error msg \<Rightarrow> if msg = [] then ''Error'' else msg)"

definition createErrorFallbackResponse :: "error \<Rightarrow> ExplanationResult" where
  "createErrorFallbackResponse err =
     (let msg = errorMessage err;
          fallbackMessage =
            (if includesStr msg ''network'' \<or> includesStr msg ''connection''
             then ''Unable to access documentation. Please check your connection.''
             else if includesStr msg ''storage'' \<or> includesStr msg ''database''
             then ''Documentation storage error. Please re-index documentation.''
             else if includesStr msg ''embedding'' \<or> includesStr msg ''vector''
             then ''Embedding generation error. Please try again.''
             else if includesStr msg ''timeout''
             then ''Request timeout. Please try again with a smaller code selection.''
             else if includesStr msg ''memory'' \<or> includesStr msg ''resource''
             then ''Insufficient resources. Please try again with a smaller code selection.''
             else ''Error generating explanation.'')
      in \<lparr>explanation = fallbackMessage, citations = [], confidence = 0, hasRelevantDocs = False\<rparr>)"

subsection \<open>Processing a request\<close>

text \<open>
  \<open>tLookup\<close> and \<open>tStore\<close> are the clock readings of the cache lookup and of the cache
  store. On a cache miss the imports of the context are sorted before the query is built.
  No modelled step of the body throws, so the \<open>catch\<close> around it has no case here.
\<close>

text \<open>
  \<open>ensureDeterministicBehavior\<close> computes the context hash and drops it; what it leaves
  behind is the context with its imports sorted.
\<close>

definition ensureDeterministicBehavior :: "CodeContext \<Rightarrow> CodeContext" where
  "ensureDeterministicBehavior context = sortImports context"

definition processExplanationRequest ::
  "(string \<Rightarrow> string) \<Rightarrow> (string \<Rightarrow> string \<Rightarrow> real) \<Rightarrow>
   (string \<Rightarrow> int \<Rightarrow> error + DocumentationChunk list) \<Rightarrow> int \<Rightarrow> int \<Rightarrow>
   ExplanationCacheManager \<Rightarrow> CodeContext \<Rightarrow> ExplanationResult \<times> ExplanationCacheManager" where
  "processExplanationRequest sha256 localeCompare searchSimilar tLookup tStore m context =
     (case retrieve sha256 tLookup m context of
        (Some cachedResult, m1) \<Rightarrow>
          (\<lparr>explanation = entry_explanation cachedResult,
            citations = entry_citations cachedResult,
            confidence = 1.0,
            hasRelevantDocs = (length (entry_citations cachedResult) > 0)\<rparr>, m1)
      | (None, m1) \<Rightarrow>
          let sortedContext = ensureDeterministicBehavior context;
              query = buildQueryFromContext sortedContext;
              relevantDocs = retrieveRelevantDocsWithConsistentRanking localeCompare searchSimilar query;
              enforcementResult = enforceDocumentationRequirement sortedContext relevantDocs
          in if \<not> fst enforcementResult then
               (\<lparr>explanation = snd enforcementResult, citations = [], confidence = 0,
                 hasRelevantDocs = False\<rparr>,
                store sha256 tStore m1 sortedContext (snd enforcementResult) [] None)
             else
               let expl = generateDeterministicExplanation localeCompare sortedContext relevantDocs
               in if \<not> validateExplanationGrounding expl relevantDocs then
                    (\<lparr>explanation = ''Not documented.'', citations = [], confidence = 0,
                      hasRelevantDocs = False\<rparr>,
                     store sha256 tStore m1 sortedContext ''Not documented.'' [] None)
                  else
                    let cits = extractCitationsWithConsistentOrdering localeCompare relevantDocs;
                        conf = calculateDeterministicConfidence localeCompare relevantDocs
                    in (\<lparr>explanation = expl, citations = cits, confidence = conf,
                         hasRelevantDocs = True\<rparr>,
                        store sha256 tStore m1 sortedContext expl cits None))"

text \<open>
  The body of \<open>explainCode\<close>'s \<open>try\<close>: \<open>Inl\<close> is a thrown error. The context reaches
  \<open>processExplanationRequest\<close> with its imports sorted by \<open>generateContextHash\<close>, and
  the registry entry of the request is deleted when it settles.
\<close>

definition explainCodeBody ::
  "(string \<Rightarrow> string) \<Rightarrow> (string \<Rightarrow> string \<Rightarrow> real) \<Rightarrow>
   (string \<Rightarrow> int \<Rightarrow> error + DocumentationChunk list) \<Rightarrow> int \<Rightarrow> int \<Rightarrow>
   RAGEngine \<Rightarrow> CodeContext \<Rightarrow> error + (ExplanationResult \<times> RAGEngine)" where
  "explainCodeBody sha256 localeCompare searchSimilar tLookup tStore engine context =
     (if selectedText context = [] then
        Inl (Error ''Selected text is required and must be a string'')
      else if length (trim (selectedText context)) = 0 then
        Inr (\<lparr>explanation = ''No code selected for explanation.'', citations = [],
              confidence = 0, hasRelevantDocs = False\<rparr>, engine)
      else
        let contextHash = generateContextHash context;
            sortedContext = sortImports context
        in case requestDeduplication engine contextHash of
             Some ongoingRequest \<Rightarrow> Inr (ongoingRequest, engine)
           | None \<Rightarrow>
               let (result, m') = processExplanationRequest sha256 localeCompare searchSimilar
                                    tLookup tStore (cacheManager engine) sortedContext
               in Inr (result,
                       engine\<lparr>cacheManager := m',
                              requestDeduplication := (requestDeduplication engine)(contextHash := None)\<rparr>))"

definition explainCode ::
  "(string \<Rightarrow> string) \<Rightarrow> (string \<Rightarrow> string \<Rightarrow> real) \<Rightarrow>
   (string \<Rightarrow> int \<Rightarrow> error + DocumentationChunk list) \<Rightarrow> int \<Rightarrow> int \<Rightarrow>
   RAGEngine \<Rightarrow> CodeContext \<Rightarrow> ExplanationResult \<times> RAGEngine" where
  "explainCode sha256 localeCompare searchSimilar tLookup tStore engine context =
     (case explainCodeBody sha256 localeCompare searchSimilar tLookup tStore engine context of
        Inl err \<Rightarrow> (createErrorFallbackResponse err, engine)
      | Inr r \<Rightarrow> r)"

subsection \<open>Outcomes\<close>

text \<open>The result of a rejected request, and the messages of the error fallback.\<close>

definition notDocumented :: ExplanationResult where
  "notDocumented = \<lparr>explanation = ''Not documented.'', citations = [], confidence = 0,
                     hasRelevantDocs = False\<rparr>"

definition fallbackMessages :: "string list" where
  "fallbackMessages =
     [''Unable to access documentation. Please check your connection.'',
      ''Documentation storage error. Please re-index documentation.'',
      ''Embedding generation error. Please try again.'',
      ''Request timeout. Please try again with a smaller code selection.'',
      ''Insufficient resources. Please try again with a smaller code selection.'',
      ''Error generating explanation.'']"

text \<open>
  The condition under which \<open>processExplanationRequest\<close> takes one of its two rejecting
  returns on a cache miss: enforcement fails, or the generated explanation is not grounded.
\<close>

definition rejects ::
  "(string \<Rightarrow> string \<Rightarrow> real) \<Rightarrow> (string \<Rightarrow> int \<Rightarrow> error + DocumentationChunk list) \<Rightarrow>
   CodeContext \<Rightarrow> bool" where
  "rejects localeCompare searchSimilar c =
     (let relevantDocs = retrieveRelevantDocsWithConsistentRanking localeCompare searchSimilar
                           (buildQueryFromContext c)
      in \<not> fst (enforceDocumentationRequirement c relevantDocs) \<or>
         \<not> validateExplanationGrounding
              (generateDeterministicExplanation localeCompare c relevantDocs) relevantDocs)"

section \<open>The documentation indexer\<close>

text \<open>
  \<open>line.match(/^(#{1,6})\s+(.+)$/)\<close>: the number of hashes and the second group. The
  line starts with one to six hashes and a white-space character. When something other
  than white space follows, the greedy \<open>\s+\<close> takes all the white space and the group
  is the rest of the line, which must hold no line terminator. When the line ends in
  white space, \<open>\s+\<close> gives back its last character, which becomes the group.
\<close>

definition headerMatch :: "string \<Rightarrow> (nat \<times> string) option" where
  "headerMatch line =
     (let hashes = takeWhile (\<lambda>c. c = CHR ''#'') line;
          rest = dropWhile (\<lambda>c. c = CHR ''#'') line
      in if length hashes < 1 \<or> length hashes > 6 then None
         else case rest of
                [] \<Rightarrow> None
              | c # r \<Rightarrow>
                  if \<not> isSpace c then None
                  else
                    let tail = dropWhile isSpace r
                    in if tail \<noteq> [] then
                         (if list_ex isLineTerminator tail then None
                          else Some (length hashes, tail))
                       else if r \<noteq> [] \<and> \<not> isLineTerminator (last r)
                       then Some (length hashes, [last r])
                       else None)"

text \<open>\<open>Number.prototype.toString()\<close> on a natural number.\<close>

fun toString10 :: "nat \<Rightarrow> string" where
  "toString10 n =
     (if n < 10 then [char_of (48 + n)] else toString10 (n div 10) @ [char_of (48 + n mod 10)])"

declare toString10.simps [simp del]

text \<open>\<open>s.replace(/-+/g, '-')\<close> and \<open>s.replace(/^-+|-+$/g, '')\<close>.\<close>

fun collapseDashes :: "string \<Rightarrow> string" where
  "collapseDashes (a # b # cs) =
     (if a = CHR ''-'' \<and> b = CHR ''-'' then collapseDashes (b # cs)
      else a # collapseDashes (b # cs))"
| "collapseDashes cs = cs"

definition stripDashes :: "string \<Rightarrow> string" where
  "stripDashes s =
     rev (dropWhile (\<lambda>c. c = CHR ''-'') (rev (dropWhile (\<lambda>c. c = CHR ''-'') s)))"

definition isLowerAlnum :: "char \<Rightarrow> bool" where
  "isLowerAlnum c = (let n = of_char c :: nat in (48 \<le> n \<and> n \<le> 57) \<or> (97 \<le> n \<and> n \<le> 122))"

text \<open>
  The loop of \<open>generateUniqueChunkId\<close> that tries \<open>cleanId-1\<close>, \<open>cleanId-2\<close> and so on
  until the identifier is unused. The set of used identifiers is a list.
\<close>

function nextUnusedId :: "string \<Rightarrow> nat \<Rightarrow> string list \<Rightarrow> string" where
  "nextUnusedId cleanId counter usedIds =
     (if cleanId @ ''-'' @ toString10 counter \<in> set usedIds
      then nextUnusedId cleanId (counter + 1) usedIds
      else cleanId @ ''-'' @ toString10 counter)"
  by pat_completeness auto
termination
proof (relation "measure (\<lambda>(cleanId, counter, usedIds).
          card {k. counter \<le> k \<and> cleanId @ ''-'' @ toString10 k \<in> set usedIds})")
  show "wf (measure (\<lambda>(cleanId, counter, usedIds).
          card {k. counter \<le> k \<and> cleanId @ ''-'' @ toString10 k \<in> set usedIds}))"
    by simp
next
  fix cleanId :: string and counter :: nat and usedIds :: "string list"
  assume used: "cleanId @ ''-'' @ toString10 counter \<in> set usedIds"
  define value10 where "value10 = foldl (\<lambda>a c. 10 * a + (of_char c - 48)) (0 :: nat)"
  have roundtrip: "value10 (toString10 n) = n" for n
  proof (induction n rule: toString10.induct)
    case (1 n)
    show ?case
    proof (cases "n < 10")
      case True
      then show ?thesis
        by (subst toString10.simps) (simp add: value10_def)
    next
      case False
      with 1 have "value10 (toString10 (n div 10)) = n div 10" by simp
      moreover have "n mod 10 < 10" by simp
      ultimately show ?thesis
        using False by (subst toString10.simps) (simp add: value10_def)
    qed
  qed
  have inj: "inj (\<lambda>k. cleanId @ ''-'' @ toString10 k)"
  proof (rule injI)
    fix x y assume "cleanId @ ''-'' @ toString10 x = cleanId @ ''-'' @ toString10 y"
    then have "value10 (toString10 x) = value10 (toString10 y)" by simp
    then show "x = y" by (simp add: roundtrip)
  qed
  let ?S = "\<lambda>n. {k. n \<le> k \<and> cleanId @ ''-'' @ toString10 k \<in> set usedIds}"
  have fin: "finite (?S counter)"
  proof -
    have "?S counter \<subseteq> (\<lambda>k. cleanId @ ''-'' @ toString10 k) -` set usedIds" by auto
    moreover have "finite ((\<lambda>k. cleanId @ ''-'' @ toString10 k) -` set usedIds)"
      using inj by (intro finite_vimageI) simp_all
    ultimately show ?thesis by (rule finite_subset)
  qed
  have "counter \<in> ?S counter" and "counter \<notin> ?S (counter + 1)"
    using used by simp_all
  moreover have "?S (counter + 1) \<subseteq> ?S counter"
    by auto
  ultimately have "?S (counter + 1) \<subset> ?S counter"
    by blast
  then have "card (?S (counter + 1)) < card (?S counter)"
    using fin by (rule psubset_card_mono [rotated])
  then show "((cleanId, counter + 1, usedIds), (cleanId, counter, usedIds))
          \<in> measure (\<lambda>(cleanId, counter, usedIds).
               card {k. counter \<le> k \<and> cleanId @ ''-'' @ toString10 k \<in> set usedIds})"
    by simp
qed

declare nextUnusedId.simps [simp del]

text \<open>The identifier and the extended set of used identifiers.\<close>

definition generateUniqueChunkId :: "string \<Rightarrow> string \<Rightarrow> string list \<Rightarrow> string \<times> string list" where
  "generateUniqueChunkId path heading usedIds =
     (let baseId = map (\<lambda>c. if isLowerAlnum c then c else CHR ''-'')
                     (toLowerCase (path @ ''#'' @ heading));
          stripped = stripDashes (collapseDashes baseId);
          cleanId = (if stripped = [] then ''unnamed-section'' else stripped);
          uniqueId = (if cleanId \<in> set usedIds then nextUnusedId cleanId 1 usedIds else cleanId)
      in (uniqueId, uniqueId # usedIds))"

text \<open>
  \<open>relativePath\<close> stands for \<open>path.relative(workspaceRoot, filePath)\<close>, which the
  platform computes. A chunk of the indexer has no embedding yet.
\<close>

definition createDocumentationChunk ::
  "string \<Rightarrow> nat \<Rightarrow> string \<Rightarrow> string \<Rightarrow> string list \<Rightarrow> DocumentationChunk \<times> string list" where
  "createDocumentationChunk heading lvl text relativePath usedIds =
     (let wc = length (filter (\<lambda>word. length word > 0) (splitRegex isSpace text));
          (uid, usedIds') = generateUniqueChunkId relativePath heading usedIds
      in (\<lparr>chunkId = uid, filePath = relativePath, sectionHeading = heading, content = text,
           embedding = None, metadata = \<lparr>level = lvl, wordCount = wc\<rparr>\<rparr>, usedIds'))"

record CurrentChunk =
  cur_heading :: string
  cur_level :: nat
  cur_content :: "string list"
  cur_startLine :: nat

text \<open>The state of the loop: the chunks so far, the used identifiers, the open chunk.\<close>

type_synonym splitState = "DocumentationChunk list \<times> string list \<times> CurrentChunk option"

definition newline :: string where
  "newline = [CHR 0x0A]"

text \<open>Closing the open chunk at a header line.\<close>

definition savePrevious :: "string \<Rightarrow> DocumentationChunk list \<Rightarrow> string list \<Rightarrow>
    CurrentChunk option \<Rightarrow> DocumentationChunk list \<times> string list" where
  "savePrevious relativePath chunks usedIds cur =
     (case cur of
        None \<Rightarrow> (chunks, usedIds)
      | Some currentChunk \<Rightarrow>
          let chunkContent = trim (join newline (cur_content currentChunk))
          in if length chunkContent > 0 \<or> length (cur_content currentChunk) = 0 then
               let (chunk, usedIds') =
                     createDocumentationChunk (cur_heading currentChunk) (cur_level currentChunk)
                       chunkContent relativePath usedIds
               in (chunks @ [chunk], usedIds')
             else (chunks, usedIds))"

definition splitStep :: "string \<Rightarrow> splitState \<Rightarrow> nat \<times> string \<Rightarrow> splitState" where
  "splitStep relativePath st il =
     (case st of (chunks, usedIds, cur) \<Rightarrow>
      case il of (i, line) \<Rightarrow>
        (case headerMatch line of
           Some (hashes, group2) \<Rightarrow>
             let (chunks', usedIds') = savePrevious relativePath chunks usedIds cur;
                 heading = trim group2
             in if length heading = 0 then (chunks', usedIds', cur)
                else (chunks', usedIds',
                      Some \<lparr>cur_heading = heading, cur_level = hashes, cur_content = [],
                            cur_startLine = i\<rparr>)
         | None \<Rightarrow>
             (case cur of
                Some currentChunk \<Rightarrow>
                  (chunks, usedIds,
                   Some (currentChunk\<lparr>cur_content := cur_content currentChunk @ [line]\<rparr>))
              | None \<Rightarrow>
                  if trim line \<noteq> [] then
                    (chunks, usedIds,
                     Some \<lparr>cur_heading = ''Introduction'', cur_level = 1, cur_content = [line],
                           cur_startLine = i\<rparr>)
                  else (chunks, usedIds, None))))"

definition saveFinal :: "string \<Rightarrow> splitState \<Rightarrow> DocumentationChunk list" where
  "saveFinal relativePath st =
     (case st of (chunks, usedIds, cur) \<Rightarrow>
        (case cur of
           None \<Rightarrow> chunks
         | Some currentChunk \<Rightarrow>
             chunks @ [fst (createDocumentationChunk (cur_heading currentChunk)
                              (cur_level currentChunk)
                              (trim (join newline (cur_content currentChunk)))
                              relativePath usedIds)]))"

definition splitByHeaders :: "string \<Rightarrow> string \<Rightarrow> DocumentationChunk list" where
  "splitByHeaders text relativePath =
     (if text = [] then []
      else
        let lines = splitChar (CHR 0x0A) text [];
            final = foldl (splitStep relativePath) ([], [], None) (enumerate 0 lines)
        in filter (\<lambda>chunk. length (trim (content chunk)) > 0 \<or>
                             sectionHeading chunk \<noteq> ''Introduction'')
             (saveFinal relativePath final))"

definition isHeadingLine :: "string \<Rightarrow> bool" where
  "isHeadingLine line = (headerMatch line \<noteq> None)"

section \<open>The vector store\<close>

subsection \<open>Arithmetic on numbers\<close>

text \<open>
  The largest double, and the result of an operation whose exact value is \<open>x\<close>: beyond
  the largest double it is an infinity. The zero of the model is the positive zero.
\<close>

definition maxValue :: real where
  "maxValue = (2 ^ 53 - 1) * 2 ^ 971"

definition number :: "real \<Rightarrow> jsnum" where
  "number x = (if x > maxValue then PosInf else if x < - maxValue then NegInf else Fin x)"

fun isFinite :: "jsnum \<Rightarrow> bool" where
  "isFinite (Fin x) = True"
| "isFinite v = False"

fun isNaN :: "jsnum \<Rightarrow> bool" where
  "isNaN NaN = True"
| "isNaN v = False"

fun jadd :: "jsnum \<Rightarrow> jsnum \<Rightarrow> jsnum" where
  "jadd (Fin a) (Fin b) = number (a + b)"
| "jadd NaN v = NaN"
| "jadd v NaN = NaN"
| "jadd PosInf NegInf = NaN"
| "jadd NegInf PosInf = NaN"
| "jadd PosInf v = PosInf"
| "jadd v PosInf = PosInf"
| "jadd NegInf v = NegInf"
| "jadd v NegInf = NegInf"

fun jneg :: "jsnum \<Rightarrow> jsnum" where
  "jneg (Fin a) = Fin (- a)"
| "jneg PosInf = NegInf"
| "jneg NegInf = PosInf"
| "jneg NaN = NaN"

fun jmul :: "jsnum \<Rightarrow> jsnum \<Rightarrow> jsnum" where
  "jmul (Fin a) (Fin b) = number (a * b)"
| "jmul NaN v = NaN"
| "jmul v NaN = NaN"
| "jmul PosInf (Fin b) = (if b = 0 then NaN else if b > 0 then PosInf else NegInf)"
| "jmul NegInf (Fin b) = (if b = 0 then NaN else if b > 0 then NegInf else PosInf)"
| "jmul (Fin a) PosInf = (if a = 0 then NaN else if a > 0 then PosInf else NegInf)"
| "jmul (Fin a) NegInf = (if a = 0 then NaN else if a > 0 then NegInf else PosInf)"
| "jmul PosInf PosInf = PosInf"
| "jmul NegInf NegInf = PosInf"
| "jmul PosInf NegInf = NegInf"
| "jmul NegInf PosInf = NegInf"

fun jdiv :: "jsnum \<Rightarrow> jsnum \<Rightarrow> jsnum" where
  "jdiv (Fin a) (Fin b) =
     (if b = 0 then (if a = 0 then NaN else if a > 0 then PosInf else NegInf)
      else number (a / b))"
| "jdiv NaN v = NaN"
| "jdiv v NaN = NaN"
| "jdiv (Fin a) PosInf = Fin 0"
| "jdiv (Fin a) NegInf = Fin 0"
| "jdiv PosInf (Fin b) = (if b \<ge> 0 then PosInf else NegInf)"
| "jdiv NegInf (Fin b) = (if b \<ge> 0 then NegInf else PosInf)"
| "jdiv v w = NaN"

fun jsqrt :: "jsnum \<Rightarrow> jsnum" where
  "jsqrt (Fin a) = (if a < 0 then NaN else Fin (sqrt a))"
| "jsqrt PosInf = PosInf"
| "jsqrt v = NaN"

text \<open>\<open>a < b\<close>; every comparison with \<open>NaN\<close> is false.\<close>

fun jless :: "jsnum \<Rightarrow> jsnum \<Rightarrow> bool" where
  "jless (Fin a) (Fin b) = (a < b)"
| "jless NaN v = False"
| "jless v NaN = False"
| "jless NegInf NegInf = False"
| "jless NegInf v = True"
| "jless v NegInf = False"
| "jless PosInf v = False"
| "jless v PosInf = True"

text \<open>\<open>a >= b\<close>.\<close>

definition jge :: "jsnum \<Rightarrow> jsnum \<Rightarrow> bool" where
  "jge a b = (\<not> isNaN a \<and> \<not> isNaN b \<and> \<not> jless a b)"

text \<open>\<open>Math.min\<close> and \<open>Math.max\<close> of two numbers.\<close>

definition jmin :: "jsnum \<Rightarrow> jsnum \<Rightarrow> jsnum" where
  "jmin a b = (if isNaN a \<or> isNaN b then NaN else if jless b a then b else a)"

definition jmax :: "jsnum \<Rightarrow> jsnum \<Rightarrow> jsnum" where
  "jmax a b = (if isNaN a \<or> isNaN b then NaN else if jless a b then b else a)"

subsection \<open>Cosine similarity\<close>

text \<open>
  The loop over the indices: a pair with a non-finite value is skipped. The state is the
  dot product and the two sums of squares.
\<close>

fun accumulate :: "jsnum list \<Rightarrow> jsnum list \<Rightarrow> jsnum \<times> jsnum \<times> jsnum \<Rightarrow> jsnum \<times> jsnum \<times> jsnum" where
  "accumulate (valA # as) (valB # bs) (dotProduct, normA, normB) =
     (if \<not> isFinite valA \<or> \<not> isFinite valB then accumulate as bs (dotProduct, normA, normB)
      else accumulate as bs (jadd dotProduct (jmul valA valB), jadd normA (jmul valA valA),
                             jadd normB (jmul valB valB)))"
| "accumulate as bs acc = acc"

text \<open>The body of the \<open>try\<close>; \<open>Inl\<close> is a thrown error.\<close>

definition cosineSimilarityBody :: "jsnum list \<Rightarrow> jsnum list \<Rightarrow> error + jsnum" where
  "cosineSimilarityBody a b =
     (if length a \<noteq> length b then Inl (Error ''Vectors must have the same length'')
      else if length a = 0 then Inl (Error ''Vectors cannot be empty'')
      else
        case accumulate a b (Fin 0, Fin 0, Fin 0) of (dotProduct, sumA, sumB) \<Rightarrow>
          let normA = jsqrt sumA; normB = jsqrt sumB
          in if normA = Fin 0 \<or> normB = Fin 0 then Inr (Fin 0)
             else
               let similarity = jdiv dotProduct (jmul normA normB)
               in if jless similarity (Fin (- 1)) \<or> jless (Fin 1) similarity
                  then Inr (jmax (Fin (- 1)) (jmin (Fin 1) similarity))
                  else Inr similarity)"

definition cosineSimilarity :: "jsnum list \<Rightarrow> jsnum list \<Rightarrow> jsnum" where
  "cosineSimilarity a b =
     (case cosineSimilarityBody a b of Inl err \<Rightarrow> Fin 0 | Inr similarity \<Rightarrow> similarity)"

subsection \<open>Embeddings\<close>

text \<open>\<open>simpleHash\<close> runs the same 32-bit loop as the context hash and returns its absolute value.\<close>

definition simpleHash :: "string \<Rightarrow> nat" where
  "simpleHash str = nat \<bar>sint (hashString str)\<bar>"

text \<open>
  The vector before normalisation: dimension \<open>j\<close> sums, over the words \<open>i\<close>,
  \<open>sin((hash + j) * 0.1) * cos((i + j) * 0.05) / sqrt(words.length)\<close>. The values are
  bounded, so they are computed in the real numbers.
\<close>

definition feature :: "string list \<Rightarrow> nat \<Rightarrow> nat \<Rightarrow> real" where
  "feature words i j =
     sin (real (simpleHash (words ! i) + j) * 0.1) * cos (real (i + j) * 0.05)
       / sqrt (real (length words))"

definition rawEmbedding :: "string list \<Rightarrow> real list" where
  "rawEmbedding words = map (\<lambda>j. \<Sum>i \<leftarrow> [0 ..< length words]. feature words i j) [0 ..< 128]"

definition vectorNorm :: "real list \<Rightarrow> real" where
  "vectorNorm v = sqrt (\<Sum>val \<leftarrow> v. val * val)"

text \<open>
  \<open>random\<close> gives the values of the calls of \<open>Math.random()\<close>, numbered from 0. An
  error thrown in the body is thrown again with the prefix of the \<open>catch\<close>.
\<close>

definition generateEmbedding :: "(nat \<Rightarrow> real) \<Rightarrow> string \<Rightarrow> error + jsnum list" where
  "generateEmbedding random text =
     (if text = [] then
        Inl (Error ''Failed to generate embedding: Error: Text input is required and must be a string'')
      else if length (trim text) = 0 then Inr (replicate 128 (Fin 0))
      else
        let words = filter (\<lambda>word. length word > 0) (splitRegex isSpace (toLowerCase text))
        in if length words = 0 then Inr (replicate 128 (Fin 0))
           else
             let raw = rawEmbedding words; norm = vectorNorm raw
             in if norm > 0 then Inr (map (\<lambda>val. Fin (val / norm)) raw)
                else Inr (map (\<lambda>i. Fin ((random i - 0.5) * 0.01)) [0 ..< 128]))"

subsection \<open>Similarity search\<close>

record VectorStoreConfig =
  dbPath :: string
  embeddingModel :: string
  similarityThreshold :: jsnum
  maxResults :: int

text \<open>
  A row of \<open>documentation_chunks\<close>. A text column that is \<open>NULL\<close> is the empty string
  here, which the checks of the search treat alike; the embedding is the list of values
  read from the blob, if there is one.
\<close>

record Row =
  row_id :: string
  file_path :: string
  section_heading :: string
  row_content :: string
  row_embedding :: "jsnum list option"
  word_count :: nat
  header_level :: nat

text \<open>
  The store: \<open>db\<close> is \<open>None\<close> before initialisation, and otherwise the answer of the
  query for all rows, an error or the rows.
\<close>

record VectorStore =
  config :: VectorStoreConfig
  db :: "(error + Row list) option"
  isInitialized :: bool

text \<open>One row of the search: the chunk and its similarity, or nothing when the row is skipped.\<close>

definition processRow :: "VectorStoreConfig \<Rightarrow> jsnum list \<Rightarrow> Row \<Rightarrow> (DocumentationChunk \<times> real) option" where
  "processRow cfg queryEmbedding row =
     (if row_id row = [] \<or> file_path row = [] \<or> section_heading row = [] \<or> row_content row = []
      then None
      else case row_embedding row of
             None \<Rightarrow> None
           | Some emb \<Rightarrow>
               if length emb = 0 then None
               else case cosineSimilarity queryEmbedding emb of
                      Fin similarity \<Rightarrow>
                        if jge (Fin similarity) (similarityThreshold cfg) then
                          Some (\<lparr>chunkId = row_id row, filePath = file_path row,
                                 sectionHeading = section_heading row, content = row_content row,
                                 embedding = Some emb,
                                 metadata = \<lparr>level = (if header_level row = 0 then 1 else header_level row),
                                             wordCount = word_count row\<rparr>\<rparr>, similarity)
                        else None
                    | other \<Rightarrow> None)"

text \<open>\<open>xs.slice(0, n)\<close> for an integer \<open>n\<close>: a negative \<open>n\<close> counts from the end.\<close>

definition sliceFromStart :: "'a list \<Rightarrow> int \<Rightarrow> 'a list" where
  "sliceFromStart xs n = (if n < 0 then take (nat (int (length xs) + n)) xs else take (nat n) xs)"

text \<open>
  \<open>embedQuery\<close> is the store's \<open>generateEmbedding\<close>. \<open>topK\<close> is an integer; the search is
  called with integers only.
\<close>

definition searchSimilar ::
  "(string \<Rightarrow> error + jsnum list) \<Rightarrow> VectorStore \<Rightarrow> string \<Rightarrow> int \<Rightarrow> error + DocumentationChunk list" where
  "searchSimilar embedQuery vs query topK =
     (case db vs of
        None \<Rightarrow> Inl (Error ''Similarity search failed: Error: Database not initialized'')
      | Some answer \<Rightarrow>
          if \<not> isInitialized vs then
            Inl (Error ''Similarity search failed: Error: VectorStore not properly initialized'')
          else if query = [] then
            Inl (Error ''Similarity search failed: Error: Query must be a non-empty string'')
          else if length (trim query) = 0 then Inr []
          else if topK \<le> 0 then
            Inl (Error ''Similarity search failed: Error: topK must be a positive integer'')
          else
            case embedQuery query of
              Inl (Error msg) \<Rightarrow>
                Inl (Error (''Similarity search failed: Error: Failed to generate query embedding: Error: '' @ msg))
            | Inr queryEmbedding \<Rightarrow>
                (case answer of
                   Inl (Error msg) \<Rightarrow> Inl (Error (''Failed to search chunks: '' @ msg))
                 | Inr rows \<Rightarrow>
                     let results = List.map_filter (processRow (config vs) queryEmbedding) rows;
                         sorted = sortBy (\<lambda>a b. snd b - snd a) results;
                         limit = min topK (maxResults (config vs));
                         topResults = sliceFromStart sorted limit
                     in Inr (map fst topResults)))"

section \<open>Predicates of the statements\<close>

text \<open>A chunk as the indexer promises it, and an open chunk that will close into one.\<close>

definition wellFormedChunk :: "DocumentationChunk \<Rightarrow> bool" where
  "wellFormedChunk chunk =
     (sectionHeading chunk \<noteq> [] \<and> 1 \<le> level (metadata chunk) \<and> level (metadata chunk) \<le> 6 \<and>
      wordCount (metadata chunk) =
        length (filter (\<lambda>word. word \<noteq> []) (splitRegex isSpace (content chunk))))"

definition wellFormedCurrent :: "CurrentChunk option \<Rightarrow> bool" where
  "wellFormedCurrent cur =
     (case cur of None \<Rightarrow> True
      | Some cc \<Rightarrow> cur_heading cc \<noteq> [] \<and> 1 \<le> cur_level cc \<and> cur_level cc \<le> 6)"




text \<open>
  The values that reach \<open>cosineSimilarity\<close> from its call in \<open>searchSimilar\<close>: a
  component of a query embedding is a number of absolute value at most 1, and a component
  read from a \<open>Float32Array\<close> is below \<open>2 ^ 128\<close> in absolute value when it is finite.
\<close>

definition unitValue :: "jsnum \<Rightarrow> bool" where
  "unitValue v = (case v of Fin r \<Rightarrow> \<bar>r\<bar> \<le> 1 | other \<Rightarrow> False)"


text \<open>The similarity that the search computed for a chunk it returns, read off the chunk's embedding.\<close>

definition similarityOf :: "jsnum list \<Rightarrow> DocumentationChunk \<Rightarrow> real" where
  "similarityOf queryEmbedding chunk =
     (case embedding chunk of
        None \<Rightarrow> 0
      | Some emb \<Rightarrow> (case cosineSimilarity queryEmbedding emb of Fin s \<Rightarrow> s | other \<Rightarrow> 0))"

section \<open>Example values\<close>

definition dedupContextA :: CodeContext where
  "dedupContextA = \<lparr>selectedText = ''x'', fileName = ''f'', functionName = None, className = None,
     imports = [''b'', ''a''], surroundingContext = ''before'', language = ''l''\<rparr>"




definition newEngine :: RAGEngine where
  "newEngine = \<lparr>cacheManager = newCacheManager, requestDeduplication = Map.empty\<rparr>"

text \<open>
  Two contexts of the engine's edge-case test: a selection of three spaces, a line feed, a
  tabulator and two spaces, and an empty selection.
\<close>

definition whitespaceContext :: CodeContext where
  "whitespaceContext =
     \<lparr>selectedText = [CHR '' '', CHR '' '', CHR '' '', CHR 0x0A, CHR 0x09, CHR '' '', CHR '' ''],
      fileName = ''whitespace.js'', functionName = None, className = None, imports = [],
      surroundingContext = [], language = ''javascript''\<rparr>"

definition emptyContext :: CodeContext where
  "emptyContext =
     \<lparr>selectedText = [], fileName = ''empty.js'', functionName = None, className = None,
      imports = [], surroundingContext = [], language = ''javascript''\<rparr>"

definition searchNothing :: "string \<Rightarrow> int \<Rightarrow> error + DocumentationChunk list" where
  "searchNothing query topK = Inr []"

definition searchFails :: "string \<Rightarrow> int \<Rightarrow> error + DocumentationChunk list" where
  "searchFails query topK = Inl (Error ''Similarity search failed: network unreachable'')"

text \<open>A comparison of strings by code units, standing for \<open>localeCompare\<close>.\<close>

definition byCodeUnits :: "string \<Rightarrow> string \<Rightarrow> real" where
  "byCodeUnits a b = (if a < b then -1 else if a = b then 0 else 1)"

text \<open>Markdown with an empty heading, the same text without that line, and a text with an introduction.\<close>

definition emptyHeadingText :: string where
  "emptyHeadingText = ''# A'' @ newline @ ''foo'' @ newline @ ''#  '' @ newline @ ''bar''"

definition emptyHeadingDeleted :: string where
  "emptyHeadingDeleted = ''# A'' @ newline @ ''foo'' @ newline @ ''bar''"

definition introText :: string where
  "introText = ''intro'' @ newline @ ''# A'' @ newline @ ''foo bar''"

definition sectionA :: DocumentationChunk where
  "sectionA = \<lparr>chunkId = ''readme-md-a'', filePath = ''README.md'', sectionHeading = ''A'',
     content = ''foo bar'', embedding = None, metadata = \<lparr>level = 1, wordCount = 2\<rparr>\<rparr>"

text \<open>A sequence of \<open>Math.random()\<close> values, and a store of three rows with a fixed query embedding.\<close>

definition zeroRandom :: "nat \<Rightarrow> real" where
  "zeroRandom i = 0"

definition axisEmbedding :: "string \<Rightarrow> error + jsnum list" where
  "axisEmbedding query = Inr [Fin 1, Fin 0]"

definition rowA :: Row where
  "rowA = \<lparr>row_id = ''a'', file_path = ''README.md'', section_heading = ''A'', row_content = ''alpha'',
            row_embedding = Some [Fin (3 / 5), Fin (4 / 5)], word_count = 1, header_level = 2\<rparr>"

definition rowB :: Row where
  "rowB = \<lparr>row_id = ''b'', file_path = ''README.md'', section_heading = ''B'', row_content = ''beta'',
            row_embedding = Some [Fin 1, Fin 0], word_count = 1, header_level = 2\<rparr>"

definition rowC :: Row where
  "rowC = \<lparr>row_id = ''c'', file_path = ''README.md'', section_heading = ''C'', row_content = ''gamma'',
            row_embedding = Some [Fin 0, Fin 1], word_count = 1, header_level = 2\<rparr>"

definition exampleStore :: VectorStore where
  "exampleStore =
     \<lparr>config = \<lparr>dbPath = ''.aidocs/vector_store.db'', embeddingModel = ''local-hash'',
                 similarityThreshold = Fin (3 / 10), maxResults = 10\<rparr>,
      db = Some (Inr [rowA, rowB, rowC]), isInitialized = True\<rparr>"

definition chunkA :: DocumentationChunk where
  "chunkA = \<lparr>chunkId = ''a'', filePath = ''README.md'', sectionHeading = ''A'', content = ''alpha'',
              embedding = Some [Fin (3 / 5), Fin (4 / 5)], metadata = \<lparr>level = 2, wordCount = 1\<rparr>\<rparr>"

definition chunkB :: DocumentationChunk where
  "chunkB = \<lparr>chunkId = ''b'', filePath = ''README.md'', sectionHeading = ''B'', content = ''beta'',
              embedding = Some [Fin 1, Fin 0], metadata = \<lparr>level = 2, wordCount = 1\<rparr>\<rparr>"

text \<open>A store whose query for the rows fails, and the error that its search throws.\<close>

definition corruptStore :: VectorStore where
  "corruptStore =
     \<lparr>config = \<lparr>dbPath = ''.aidocs/vector_store.db'', embeddingModel = ''local-hash'',
                 similarityThreshold = Fin (3 / 10), maxResults = 10\<rparr>,
      db = Some (Inl (Error ''SQLITE_CORRUPT: database disk image is malformed'')),
      isInitialized = True\<rparr>"

definition corruptError :: error where
  "corruptError = Error ''Failed to search chunks: SQLITE_CORRUPT: database disk image is malformed''"

section \<open>The context hash and request deduplication\<close>


lemma trim_Nil [simp]: "trim [] = []"
  by (simp add: trim_def)




text \<open>
  The hash has 32 bits, so equal hashes do not need equal fields either: the selections
  \<open>Aa\<close> and \<open>BB\<close> collide.
\<close>

lemma generateContextHash_collision:
  "generateContextHash (dedupContextA\<lparr>selectedText := ''Aa''\<rparr>)
     = generateContextHash (dedupContextA\<lparr>selectedText := ''BB''\<rparr>)"
  by (simp add: dedupContextA_def generateContextHash_def hashInput_def orEmpty_def
      hashString_def hashStep_def)

section \<open>The engine's results\<close>

subsection \<open>Sorting, citations and generated text\<close>

lemma length_insertBy [simp]: "length (insertBy cmp x ys) = Suc (length ys)"
  by (induction ys) auto

lemma length_sortBy [simp]: "length (sortBy cmp xs) = length xs"
  by (induction xs) (auto simp: sortBy_def)

lemma sortBy_Nil_iff [simp]: "sortBy cmp xs = [] \<longleftrightarrow> xs = []"
  using length_sortBy [of cmp xs] by (metis length_0_conv)

lemma extractCitations_Nil_iff [simp]:
  "extractCitationsWithConsistentOrdering lc docs = [] \<longleftrightarrow> docs = []"
  by (cases docs) (simp_all add: extractCitationsWithConsistentOrdering_def)

lemma generateImprovedExplanation_head:
  "docs \<noteq> [] \<Longrightarrow> hd (generateImprovedExplanation context docs) = CHR ''T''"
  by (cases docs) (auto simp: generateImprovedExplanation_def Let_def)

lemma generateDeterministicExplanation_documented:
  assumes "docs \<noteq> []"
  shows "generateDeterministicExplanation lc context docs \<noteq> ''Not documented.''"
proof -
  have "sortBy (chunkCompare lc) docs \<noteq> []" using assms by simp
  then have "hd (generateDeterministicExplanation lc context docs) = CHR ''T''"
    using assms by (simp add: generateDeterministicExplanation_def generateImprovedExplanation_head)
  then show ?thesis by auto
qed

lemma enforce_Nil [simp]: "enforceDocumentationRequirement context [] = (False, ''Not documented.'')"
  by (simp add: enforceDocumentationRequirement_def)

lemma enforce_fallback:
  "\<not> fst (enforceDocumentationRequirement context docs) \<Longrightarrow>
   snd (enforceDocumentationRequirement context docs) = ''Not documented.''"
  by (auto simp: enforceDocumentationRequirement_def Let_def split: if_splits)

lemma enforce_valid_docs:
  "fst (enforceDocumentationRequirement context docs) \<Longrightarrow> docs \<noteq> []"
  by (auto simp: enforceDocumentationRequirement_def)

subsection \<open>The cache\<close>

lemma sortImports_idem [simp]: "sortImports (sortImports c) = sortImports c"
  by (simp add: sortImports_def sorted_sort_id)

lemma generateCacheKey_sortImports [simp]:
  "generateCacheKey sha256 (sortImports c) = generateCacheKey sha256 c"
  by (simp add: generateCacheKey_def sortImports_def)

lemma fst_retrieve:
  "fst (retrieve sha256 t m c) =
     (case cache m (generateCacheKey sha256 c) of
        None \<Rightarrow> None
      | Some e \<Rightarrow> if isValidEntry t e then Some e else None)"
  by (simp add: retrieve_def Let_def split: option.splits)


lemma defaultTTL_snd_retrieve [simp]:
  "defaultTTL (snd (retrieve sha256 t m c)) = defaultTTL m"
  by (simp add: retrieve_def Let_def split: option.splits)

lemma cache_store:
  "cache (store sha256 t m c expl cits None) k =
     (if k = generateCacheKey sha256 c
      then Some \<lparr>key = k, entry_explanation = expl, entry_citations = cits,
                  timestamp = t, ttl = defaultTTL m\<rparr>
      else cache m k)"
  by (simp add: store_def Let_def)

lemma cache_fold_invalidateFile:
  assumes "cache m k = Some e" and "entry_citations e = []"
  shows "cache (fold invalidateFile paths m) k = Some e"
  using assms
proof (induction paths arbitrary: m)
  case Nil
  then show ?case by simp
next
  case (Cons p ps)
  from Cons.prems have "cache (invalidateFile p m) k = Some e"
    by (simp add: invalidateFile_def)
  with Cons show ?case by simp
qed

lemma defaultTTL_fold_invalidateFile [simp]:
  "defaultTTL (fold invalidateFile paths m) = defaultTTL m"
  by (induction paths arbitrary: m) (simp_all add: invalidateFile_def)

subsection \<open>The paths through a request\<close>

text \<open>
  A request that reaches \<open>processExplanationRequest\<close> is answered from the cache, rejected
  and cached, or accepted and cached.
\<close>

lemma process_cases:
  assumes "processExplanationRequest sha256 lc vs tL tS m context = (r, m')"
  shows "(\<exists>e. fst (retrieve sha256 tL m context) = Some e \<and>
              r = \<lparr>explanation = entry_explanation e, citations = entry_citations e,
                    confidence = 1, hasRelevantDocs = (entry_citations e \<noteq> [])\<rparr> \<and>
              m' = snd (retrieve sha256 tL m context))
       \<or> (fst (retrieve sha256 tL m context) = None \<and> r = notDocumented \<and>
           m' = store sha256 tS (snd (retrieve sha256 tL m context)) (sortImports context)
                  ''Not documented.'' [] None)
       \<or> (fst (retrieve sha256 tL m context) = None \<and> hasRelevantDocs r \<and> citations r \<noteq> [] \<and>
           explanation r \<noteq> ''Not documented.'' \<and>
           m' = store sha256 tS (snd (retrieve sha256 tL m context)) (sortImports context)
                  (explanation r) (citations r) None)"
proof (cases "retrieve sha256 tL m context")
  case (Pair hit m1)
  show ?thesis
  proof (cases hit)
    case (Some e)
    with Pair assms show ?thesis
      by (auto simp: processExplanationRequest_def)
  next
    case None
    let ?docs = "retrieveRelevantDocsWithConsistentRanking lc vs
                   (buildQueryFromContext (sortImports context))"
    show ?thesis
    proof (cases "fst (enforceDocumentationRequirement (sortImports context) ?docs)")
      case False
      with Pair None assms enforce_fallback [OF False] show ?thesis
        by (auto simp: processExplanationRequest_def ensureDeterministicBehavior_def Let_def
            notDocumented_def)
    next
      case True
      then have ne: "?docs \<noteq> []" by (rule enforce_valid_docs)
      show ?thesis
      proof (cases "validateExplanationGrounding
                      (generateDeterministicExplanation lc (sortImports context) ?docs) ?docs")
        case False
        with True Pair None assms show ?thesis
          by (auto simp: processExplanationRequest_def ensureDeterministicBehavior_def Let_def
              notDocumented_def)
      next
        case g: True
        moreover note generateDeterministicExplanation_documented [OF ne, of lc "sortImports context"]
        ultimately show ?thesis using True Pair None assms ne
          by (auto simp: processExplanationRequest_def ensureDeterministicBehavior_def Let_def)
      qed
    qed
  qed
qed

lemma process_rejects:
  assumes "fst (retrieve sha256 tL m c) = None" and "rejects lc vs (sortImports c)"
  shows "processExplanationRequest sha256 lc vs tL tS m c =
           (notDocumented,
            store sha256 tS (snd (retrieve sha256 tL m c)) (sortImports c) ''Not documented.'' [] None)"
proof (cases "retrieve sha256 tL m c")
  case (Pair hit m1)
  with assms(1) have hit: "hit = None" by simp
  let ?docs = "retrieveRelevantDocsWithConsistentRanking lc vs (buildQueryFromContext (sortImports c))"
  show ?thesis
  proof (cases "fst (enforceDocumentationRequirement (sortImports c) ?docs)")
    case False
    with Pair hit enforce_fallback [OF False] show ?thesis
      by (simp add: processExplanationRequest_def ensureDeterministicBehavior_def Let_def
          notDocumented_def)
  next
    case True
    with assms(2) have "\<not> validateExplanationGrounding
              (generateDeterministicExplanation lc (sortImports c) ?docs) ?docs"
      by (simp add: rejects_def Let_def)
    with True Pair hit show ?thesis
      by (simp add: processExplanationRequest_def ensureDeterministicBehavior_def Let_def
          notDocumented_def)
  qed
qed


lemma rejects_no_docs:
  "retrieveRelevantDocsWithConsistentRanking lc vs (buildQueryFromContext c) = [] \<Longrightarrow> rejects lc vs c"
  by (simp add: rejects_def)

lemma retrieve_search_failure:
  "vs query 5 = Inl err \<Longrightarrow> retrieveRelevantDocsWithConsistentRanking lc vs query = []"
  by (simp add: retrieveRelevantDocsWithConsistentRanking_def)

lemma explainCode_resolved:
  assumes "trim (selectedText c) \<noteq> []"
    and "requestDeduplication engine (generateContextHash c) = None"
  shows "explainCode sha256 lc vs tL tS engine c =
         (fst (processExplanationRequest sha256 lc vs tL tS (cacheManager engine) (sortImports c)),
          engine\<lparr>cacheManager :=
                   snd (processExplanationRequest sha256 lc vs tL tS (cacheManager engine) (sortImports c)),
                 requestDeduplication := (requestDeduplication engine)(generateContextHash c := None)\<rparr>)"
proof -
  from assms(1) have "selectedText c \<noteq> []" by auto
  with assms show ?thesis
    by (simp add: explainCode_def explainCodeBody_def Let_def split: prod.splits)
qed

lemma explainCode_blank:
  assumes "trim (selectedText c) = []"
  shows "fst (explainCode sha256 lc vs tL tS engine c) =
           (if selectedText c = []
            then createErrorFallbackResponse (Error ''Selected text is required and must be a string'')
            else \<lparr>explanation = ''No code selected for explanation.'', citations = [],
                  confidence = 0, hasRelevantDocs = False\<rparr>)"
  using assms by (simp add: explainCode_def explainCodeBody_def)

lemma explainCode_rejected:
  assumes nb: "trim (selectedText c) \<noteq> []"
    and reg: "requestDeduplication engine (generateContextHash c) = None"
    and miss: "fst (retrieve sha256 tL (cacheManager engine) (sortImports c)) = None"
    and rej: "rejects lc vs (sortImports c)"
  shows "explainCode sha256 lc vs tL tS engine c =
           (notDocumented,
            engine\<lparr>cacheManager :=
                     store sha256 tS (snd (retrieve sha256 tL (cacheManager engine) (sortImports c)))
                       (sortImports c) ''Not documented.'' [] None,
                   requestDeduplication := (requestDeduplication engine)(generateContextHash c := None)\<rparr>)"
  using explainCode_resolved [OF nb reg, of sha256 lc vs tL tS] process_rejects [OF miss, of lc vs tS] rej
  by simp


lemma createErrorFallbackResponse_fields [simp]:
  "citations (createErrorFallbackResponse err) = []"
  "confidence (createErrorFallbackResponse err) = 0"
  "hasRelevantDocs (createErrorFallbackResponse err) = False"
  by (simp_all add: createErrorFallbackResponse_def Let_def)

subsection \<open>The example engine\<close>

lemma retrieve_searchNothing [simp]:
  "retrieveRelevantDocsWithConsistentRanking lc searchNothing query = []"
  by (simp add: retrieveRelevantDocsWithConsistentRanking_def searchNothing_def sortBy_def)

lemma newEngine_simps [simp]:
  "requestDeduplication newEngine k = None"
  "cache (cacheManager newEngine) k = None"
  "defaultTTL (cacheManager newEngine) = 1800000"
  by (simp_all add: newEngine_def newCacheManager_def)

lemma trim_x [simp]: "trim ''x'' = ''x''" "trim ''y'' = ''y''" "trim '' '' = []"
  by (simp_all add: trim_def isSpace_def)




subsection \<open>Coupling of the result's fields\<close>

text \<open>
  What holds of the coupling. A result that \<open>explainCode\<close> computes, for a selection that
  is not white space, with no identical request in flight and no valid entry in the
  cache, has \<open>hasRelevantDocs\<close> false exactly when its explanation is
  \<open>Not documented.\<close> and exactly when its citations are empty, and its confidence is
  then 0.
\<close>

lemma explainCode_computed_coupling:
  assumes nb: "trim (selectedText c) \<noteq> []"
    and reg: "requestDeduplication engine (generateContextHash c) = None"
    and miss: "fst (retrieve sha256 tL (cacheManager engine) (sortImports c)) = None"
  shows "(hasRelevantDocs (fst (explainCode sha256 lc vs tL tS engine c)) = False
            \<longleftrightarrow> explanation (fst (explainCode sha256 lc vs tL tS engine c)) = ''Not documented.'') \<and>
         (explanation (fst (explainCode sha256 lc vs tL tS engine c)) = ''Not documented.''
            \<longleftrightarrow> citations (fst (explainCode sha256 lc vs tL tS engine c)) = []) \<and>
         (citations (fst (explainCode sha256 lc vs tL tS engine c)) = []
            \<longrightarrow> confidence (fst (explainCode sha256 lc vs tL tS engine c)) = 0)"
proof -
  obtain r m' where p: "processExplanationRequest sha256 lc vs tL tS (cacheManager engine) (sortImports c) = (r, m')"
    by (cases "processExplanationRequest sha256 lc vs tL tS (cacheManager engine) (sortImports c)")
  have e: "fst (explainCode sha256 lc vs tL tS engine c) = r"
    using explainCode_resolved [OF nb reg] p by simp
  from process_cases [OF p] miss show ?thesis
    unfolding e by (auto simp: notDocumented_def)
qed

lemma explainCode_computed_coupling_example:
  "explanation (fst (explainCode id byCodeUnits searchNothing 0 0 newEngine dedupContextA))
     = ''Not documented.'' \<and>
   citations (fst (explainCode id byCodeUnits searchNothing 0 0 newEngine dedupContextA)) = [] \<and>
   confidence (fst (explainCode id byCodeUnits searchNothing 0 0 newEngine dedupContextA)) = 0 \<and>
   hasRelevantDocs (fst (explainCode id byCodeUnits searchNothing 0 0 newEngine dedupContextA)) = False"
proof -
  have reg: "requestDeduplication newEngine (generateContextHash dedupContextA) = None"
    by simp
  have miss: "fst (retrieve id 0 (cacheManager newEngine) (sortImports dedupContextA)) = None"
    by (simp add: fst_retrieve)
  have nb: "trim (selectedText dedupContextA) \<noteq> []"
    by (simp add: dedupContextA_def)
  have "explanation (fst (explainCode id byCodeUnits searchNothing 0 0 newEngine dedupContextA))
          = ''Not documented.''"
    using explainCode_resolved [OF nb reg, of id byCodeUnits searchNothing 0 0]
      process_rejects [OF miss rejects_no_docs, of byCodeUnits searchNothing 0]
    by (simp add: notDocumented_def)
  with explainCode_computed_coupling [OF nb reg miss, of byCodeUnits searchNothing 0]
  show ?thesis by blast
qed

text \<open>
  C1 fails on the code. A selection of white space is answered with the explanation
  \<open>No code selected for explanation.\<close>, and an empty selection with the generic message
  of the error fallback; both results have no relevant documentation, no citations and
  confidence 0, so \<open>hasRelevantDocs\<close> is false and the explanation is not
  \<open>Not documented.\<close> The engine's edge-case test expects \<open>Not documented.\<close> for both
  selections.
\<close>

theorem blank_selection_not_sentinel:
  "fst (explainCode id byCodeUnits searchNothing 0 0 newEngine whitespaceContext) =
     \<lparr>explanation = ''No code selected for explanation.'', citations = [], confidence = 0,
      hasRelevantDocs = False\<rparr> \<and>
   fst (explainCode id byCodeUnits searchNothing 0 0 newEngine emptyContext) =
     \<lparr>explanation = ''Error generating explanation.'', citations = [], confidence = 0,
      hasRelevantDocs = False\<rparr>"
proof -
  have "trim (selectedText whitespaceContext) = []" "selectedText whitespaceContext \<noteq> []"
    by (simp_all add: whitespaceContext_def trim_def isSpace_def)
  then have "fst (explainCode id byCodeUnits searchNothing 0 0 newEngine whitespaceContext) =
     \<lparr>explanation = ''No code selected for explanation.'', citations = [], confidence = 0,
      hasRelevantDocs = False\<rparr>"
    by (simp add: explainCode_blank)
  moreover have "trim (selectedText emptyContext) = []" "selectedText emptyContext = []"
    by (simp_all add: emptyContext_def)
  then have "fst (explainCode id byCodeUnits searchNothing 0 0 newEngine emptyContext) =
     createErrorFallbackResponse (Error ''Selected text is required and must be a string'')"
    by (simp add: explainCode_blank)
  moreover have "createErrorFallbackResponse (Error ''Selected text is required and must be a string'')
      = \<lparr>explanation = ''Error generating explanation.'', citations = [], confidence = 0,
         hasRelevantDocs = False\<rparr>"
    by (simp add: createErrorFallbackResponse_def errorMessage_def)
  ultimately show ?thesis by simp
qed

subsection \<open>Cache hits\<close>




subsection \<open>Failures\<close>

lemma generateEmbedding_vector:
  "text \<noteq> [] \<Longrightarrow> \<exists>v. generateEmbedding random text = Inr v \<and> length v = 128"
  by (simp add: generateEmbedding_def Let_def rawEmbedding_def)

lemma corruptStore_search:
  assumes "trim query \<noteq> []"
  shows "searchSimilar (generateEmbedding random) corruptStore query 5 = Inl corruptError"
proof -
  from assms have "query \<noteq> []" by auto
  with generateEmbedding_vector [of query random] assms show ?thesis
    by (auto simp: searchSimilar_def corruptStore_def corruptError_def)
qed

lemma dedupContextA_query: "buildQueryFromContext (sortImports dedupContextA) = ''a b''"
  by code_simp

text \<open>
  C8 fails on the code. When the store's query for the rows fails, \<open>searchSimilar\<close>
  throws an error whose message names the database, and \<open>createErrorFallbackResponse\<close>
  answers such an error with the storage message. The error does not get there: it is
  caught where the search is called, the retrieval counts as empty, and the request is
  answered \<open>Not documented.\<close>, which is none of the messages of the fallback.
\<close>

theorem retrieval_failure_not_classified:
  "searchSimilar (generateEmbedding zeroRandom) corruptStore
     (buildQueryFromContext (sortImports dedupContextA)) 5 = Inl corruptError \<and>
   explanation (createErrorFallbackResponse corruptError) =
     ''Documentation storage error. Please re-index documentation.'' \<and>
   fst (explainCode id byCodeUnits (searchSimilar (generateEmbedding zeroRandom) corruptStore) 0 0
          newEngine dedupContextA) =
     \<lparr>explanation = ''Not documented.'', citations = [], confidence = 0, hasRelevantDocs = False\<rparr> \<and>
   ''Not documented.'' \<notin> set fallbackMessages"
proof -
  let ?search = "searchSimilar (generateEmbedding zeroRandom) corruptStore"
  have thrown: "?search (buildQueryFromContext (sortImports dedupContextA)) 5 = Inl corruptError"
    by (simp add: dedupContextA_query corruptStore_search trim_def isSpace_def)
  then have "rejects byCodeUnits ?search (sortImports dedupContextA)"
    by (intro rejects_no_docs retrieve_search_failure)
  then have "fst (explainCode id byCodeUnits ?search 0 0 newEngine dedupContextA) = notDocumented"
    by (subst explainCode_rejected) (simp_all add: dedupContextA_def fst_retrieve)
  moreover have "explanation (createErrorFallbackResponse corruptError) =
     ''Documentation storage error. Please re-index documentation.''"
    by (simp add: createErrorFallbackResponse_def errorMessage_def corruptError_def)
  ultimately show ?thesis using thrown
    by (simp add: notDocumented_def fallbackMessages_def)
qed

subsection \<open>Rejections in the cache\<close>

text \<open>
  C10. When enforcement or grounding rejects a request, the engine stores
  \<open>Not documented.\<close> with an empty citation list under the request's key. No sequence
  of \<open>invalidateFile\<close> calls removes that entry, and until its time to live has passed
  the same context is answered from it, whatever the vector store holds by then.
\<close>

theorem rejection_cached_despite_invalidation:
  assumes nb: "trim (selectedText c) \<noteq> []"
    and reg: "requestDeduplication engine (generateContextHash c) = None"
    and miss: "fst (retrieve sha256 tLookupA (cacheManager engine) (sortImports c)) = None"
    and rej: "rejects lc searchA (sortImports c)"
    and first: "explainCode sha256 lc searchA tLookupA tStoreA engine c = (resultA, engineA)"
    and valid: "tLookupB < tStoreA + defaultTTL (cacheManager engine)"
  shows "resultA = \<lparr>explanation = ''Not documented.'', citations = [], confidence = 0,
                hasRelevantDocs = False\<rparr> \<and>
         cache (cacheManager engineA) (generateCacheKey sha256 c) =
           Some \<lparr>key = generateCacheKey sha256 c, entry_explanation = ''Not documented.'',
                  entry_citations = [], timestamp = tStoreA, ttl = defaultTTL (cacheManager engine)\<rparr> \<and>
         cache (fold invalidateFile paths (cacheManager engineA)) (generateCacheKey sha256 c) =
           cache (cacheManager engineA) (generateCacheKey sha256 c) \<and>
         fst (explainCode sha256 lc searchB tLookupB tStoreB
                (engineA\<lparr>cacheManager := fold invalidateFile paths (cacheManager engineA)\<rparr>) c) =
           \<lparr>explanation = ''Not documented.'', citations = [], confidence = 1,
            hasRelevantDocs = False\<rparr>"
proof -
  let ?k = "generateCacheKey sha256 c"
  let ?e = "\<lparr>key = ?k, entry_explanation = ''Not documented.'', entry_citations = [],
             timestamp = tStoreA, ttl = defaultTTL (cacheManager engine)\<rparr>"
  from explainCode_resolved [OF nb reg, of sha256 lc searchA tLookupA tStoreA] first
    process_rejects [OF miss, of lc searchA tStoreA] rej
  have resultA: "resultA = notDocumented"
    and e1: "engineA = engine\<lparr>cacheManager :=
                 store sha256 tStoreA (snd (retrieve sha256 tLookupA (cacheManager engine) (sortImports c)))
                   (sortImports c) ''Not documented.'' [] None,
               requestDeduplication := (requestDeduplication engine)(generateContextHash c := None)\<rparr>"
    by simp_all
  have c1: "cache (cacheManager engineA) ?k = Some ?e"
    by (simp add: e1 cache_store)
  have c2: "cache (fold invalidateFile paths (cacheManager engineA)) ?k = Some ?e"
    using c1 by (rule cache_fold_invalidateFile) simp
  let ?engine2 = "engineA\<lparr>cacheManager := fold invalidateFile paths (cacheManager engineA)\<rparr>"
  have reg2: "requestDeduplication ?engine2 (generateContextHash c) = None"
    by (simp add: e1)
  have hit: "fst (retrieve sha256 tLookupB (cacheManager ?engine2) (sortImports c)) = Some ?e"
    using c2 valid by (simp add: fst_retrieve isValidEntry_def)
  have "fst (explainCode sha256 lc searchB tLookupB tStoreB ?engine2 c) =
          \<lparr>explanation = ''Not documented.'', citations = [], confidence = 1,
           hasRelevantDocs = False\<rparr>"
  proof -
    obtain r m' where p: "processExplanationRequest sha256 lc searchB tLookupB tStoreB (cacheManager ?engine2) (sortImports c) = (r, m')"
      by (cases "processExplanationRequest sha256 lc searchB tLookupB tStoreB (cacheManager ?engine2) (sortImports c)")
    from process_cases [OF p] hit have "r = \<lparr>explanation = ''Not documented.'', citations = [],
        confidence = 1, hasRelevantDocs = False\<rparr>"
      by auto
    with explainCode_resolved [OF nb reg2, of sha256 lc searchB tLookupB tStoreB] p show ?thesis by simp
  qed
  with resultA c1 c2 show ?thesis by (simp add: notDocumented_def)
qed

theorem rejection_cached_despite_invalidation_witness:
  "rejects byCodeUnits searchNothing (sortImports dedupContextA) \<and>
   (1000 :: int) < 0 + defaultTTL (cacheManager newEngine) \<and>
   cache (fold invalidateFile [''README.md'', ''docs/api.md'']
            (cacheManager (snd (explainCode id byCodeUnits searchNothing 0 0 newEngine dedupContextA))))
      (generateCacheKey id dedupContextA) =
     Some \<lparr>key = generateCacheKey id dedupContextA, entry_explanation = ''Not documented.'',
            entry_citations = [], timestamp = 0, ttl = 1800000\<rparr> \<and>
   fst (explainCode id byCodeUnits searchFails 1000 1000
          ((snd (explainCode id byCodeUnits searchNothing 0 0 newEngine dedupContextA))
             \<lparr>cacheManager := fold invalidateFile [''README.md'', ''docs/api.md'']
                (cacheManager (snd (explainCode id byCodeUnits searchNothing 0 0 newEngine dedupContextA)))\<rparr>)
          dedupContextA) =
     \<lparr>explanation = ''Not documented.'', citations = [], confidence = 1, hasRelevantDocs = False\<rparr>"
proof -
  let ?first = "explainCode id byCodeUnits searchNothing 0 0 newEngine dedupContextA"
  have nb: "trim (selectedText dedupContextA) \<noteq> []"
    by (simp add: dedupContextA_def)
  have reg: "requestDeduplication newEngine (generateContextHash dedupContextA) = None"
    by simp
  have miss: "fst (retrieve id 0 (cacheManager newEngine) (sortImports dedupContextA)) = None"
    by (simp add: fst_retrieve)
  have rej: "rejects byCodeUnits searchNothing (sortImports dedupContextA)"
    by (simp add: rejects_no_docs)
  have first: "?first = (fst ?first, snd ?first)"
    by simp
  have valid: "(1000 :: int) < 0 + defaultTTL (cacheManager newEngine)"
    by simp
  from rejection_cached_despite_invalidation [OF nb reg miss rej first valid,
      where paths = "[''README.md'', ''docs/api.md'']" and searchB = searchFails and tStoreB = 1000]
    rej valid
  show ?thesis by simp
qed

section \<open>The chunks of the indexer\<close>

lemma createDocumentationChunk_wellFormed:
  assumes "heading \<noteq> []" and "1 \<le> lvl" and "lvl \<le> 6"
    and "createDocumentationChunk heading lvl text path usedIds = (chunk, usedIds')"
  shows "wellFormedChunk chunk"
  using assms
  by (auto simp: createDocumentationChunk_def wellFormedChunk_def Let_def split: prod.splits)

lemma headerMatch_level:
  "headerMatch line = Some (hashes, group2) \<Longrightarrow> 1 \<le> hashes \<and> hashes \<le> 6"
  by (auto simp: headerMatch_def Let_def Suc_le_eq split: if_splits list.splits)

lemma savePrevious_wellFormed:
  assumes "\<forall>chunk \<in> set chunks. wellFormedChunk chunk" and "wellFormedCurrent cur"
    and "savePrevious path chunks usedIds cur = (chunks', usedIds')"
  shows "(\<forall>chunk \<in> set chunks'. wellFormedChunk chunk) \<and> length chunks' \<le> Suc (length chunks)"
proof (cases cur)
  case None
  with assms show ?thesis by (simp add: savePrevious_def)
next
  case (Some cc)
  with assms(2) have cc: "cur_heading cc \<noteq> []" "1 \<le> cur_level cc" "cur_level cc \<le> 6"
    by (simp_all add: wellFormedCurrent_def)
  from createDocumentationChunk_wellFormed [OF cc]
  show ?thesis
    using assms(1,3) Some
    by (auto simp: savePrevious_def Let_def split: if_splits prod.splits)
qed

lemma splitStep_invariant:
  assumes "\<forall>chunk \<in> set chunks. wellFormedChunk chunk" and "wellFormedCurrent cur"
    and "splitStep path (chunks, usedIds, cur) (i, line) = (chunks', usedIds', cur')"
  shows "(\<forall>chunk \<in> set chunks'. wellFormedChunk chunk) \<and> wellFormedCurrent cur' \<and>
         length chunks' \<le> length chunks + (if isHeadingLine line then 1 else 0)"
proof (cases "headerMatch line")
  case None
  with assms show ?thesis
    by (auto simp: splitStep_def isHeadingLine_def wellFormedCurrent_def
        split: option.splits if_splits)
next
  case (Some m)
  obtain hashes group2 where m: "m = (hashes, group2)" by (cases m)
  obtain cs us where sp: "savePrevious path chunks usedIds cur = (cs, us)"
    by (cases "savePrevious path chunks usedIds cur")
  from headerMatch_level Some m have lv: "1 \<le> hashes" "hashes \<le> 6" by auto
  from savePrevious_wellFormed [OF assms(1,2) sp]
  have cs: "\<forall>chunk \<in> set cs. wellFormedChunk chunk" "length cs \<le> Suc (length chunks)"
    by auto
  from assms(3) Some m sp have "chunks' = cs"
    and "cur' = (if length (trim group2) = 0 then cur
                 else Some \<lparr>cur_heading = trim group2, cur_level = hashes, cur_content = [],
                            cur_startLine = i\<rparr>)"
    by (auto simp: splitStep_def Let_def split: if_splits)
  with cs lv assms(2) Some show ?thesis
    by (auto simp: isHeadingLine_def wellFormedCurrent_def)
qed

lemma foldl_splitStep_invariant:
  assumes "\<forall>chunk \<in> set chunks. wellFormedChunk chunk" and "wellFormedCurrent cur"
    and "foldl (splitStep path) (chunks, usedIds, cur) ils = (chunks', usedIds', cur')"
  shows "(\<forall>chunk \<in> set chunks'. wellFormedChunk chunk) \<and> wellFormedCurrent cur' \<and>
         length chunks' \<le> length chunks + length (filter isHeadingLine (map snd ils))"
  using assms
proof (induction ils arbitrary: chunks usedIds cur)
  case Nil
  then show ?case by simp
next
  case (Cons il ils)
  obtain i line where il: "il = (i, line)" by (cases il)
  obtain cs us cu where st: "splitStep path (chunks, usedIds, cur) (i, line) = (cs, us, cu)"
    by (cases "splitStep path (chunks, usedIds, cur) (i, line)")
  from splitStep_invariant [OF Cons.prems(1,2) st]
  have a: "\<forall>chunk \<in> set cs. wellFormedChunk chunk" "wellFormedCurrent cu"
    "length cs \<le> length chunks + (if isHeadingLine line then 1 else 0)"
    by auto
  from Cons.prems(3) il st
  have "foldl (splitStep path) (cs, us, cu) ils = (chunks', usedIds', cur')" by simp
  from Cons.IH [OF a(1,2) this] a(3) il show ?case
    by auto
qed

lemma saveFinal_wellFormed:
  assumes "\<forall>chunk \<in> set chunks. wellFormedChunk chunk" and "wellFormedCurrent cur"
  shows "(\<forall>chunk \<in> set (saveFinal path (chunks, usedIds, cur)). wellFormedChunk chunk) \<and>
         length (saveFinal path (chunks, usedIds, cur)) \<le> Suc (length chunks)"
proof (cases cur)
  case None
  with assms show ?thesis by (simp add: saveFinal_def)
next
  case (Some cc)
  with assms(2) have cc: "cur_heading cc \<noteq> []" "1 \<le> cur_level cc" "cur_level cc \<le> 6"
    by (simp_all add: wellFormedCurrent_def)
  obtain chunk us where c: "createDocumentationChunk (cur_heading cc) (cur_level cc)
      (trim (join newline (cur_content cc))) path usedIds = (chunk, us)"
    by (cases "createDocumentationChunk (cur_heading cc) (cur_level cc)
      (trim (join newline (cur_content cc))) path usedIds")
  from createDocumentationChunk_wellFormed [OF cc c] assms(1) Some c
  show ?thesis by (auto simp: saveFinal_def)
qed

lemma introText_chunks:
  "splitByHeaders introText ''README.md'' =
     [\<lparr>chunkId = ''readme-md-introduction'', filePath = ''README.md'',
       sectionHeading = ''Introduction'', content = ''intro'', embedding = None,
       metadata = \<lparr>level = 1, wordCount = 1\<rparr>\<rparr>, sectionA]"
  by code_simp

text \<open>
  C6. Every chunk of \<open>splitByHeaders\<close> has a non-empty \<open>sectionHeading\<close>, a level
  from 1 to 6 and a \<open>wordCount\<close> equal to the number of non-empty pieces of its content
  between runs of white space, and there are at most as many chunks as the text has
  heading lines, plus one.
\<close>

theorem splitByHeaders_chunks:
  "(\<forall>chunk \<in> set (splitByHeaders text path).
      sectionHeading chunk \<noteq> [] \<and>
      1 \<le> level (metadata chunk) \<and> level (metadata chunk) \<le> 6 \<and>
      wordCount (metadata chunk) =
        length (filter (\<lambda>word. word \<noteq> []) (splitRegex isSpace (content chunk)))) \<and>
   length (splitByHeaders text path)
     \<le> length (filter isHeadingLine (splitChar (CHR 0x0A) text [])) + 1"
proof (cases "text = []")
  case True
  then show ?thesis by (simp add: splitByHeaders_def)
next
  case False
  let ?lines = "splitChar (CHR 0x0A) text []"
  obtain cs us cu where f: "foldl (splitStep path) ([], [], None) (enumerate 0 ?lines) = (cs, us, cu)"
    by (cases "foldl (splitStep path) ([], [], None) (enumerate 0 ?lines)")
  have "\<forall>chunk \<in> set ([] :: DocumentationChunk list). wellFormedChunk chunk" by simp
  moreover have "wellFormedCurrent None" by (simp add: wellFormedCurrent_def)
  ultimately have inv: "(\<forall>chunk \<in> set cs. wellFormedChunk chunk) \<and> wellFormedCurrent cu \<and>
         length cs \<le> length ([] :: DocumentationChunk list)
                      + length (filter isHeadingLine (map snd (enumerate 0 ?lines)))"
    using f by (rule foldl_splitStep_invariant)
  then have n: "length cs \<le> length (filter isHeadingLine ?lines)"
    by simp
  from inv saveFinal_wellFormed [of cs cu path us]
  have fin: "\<forall>chunk \<in> set (saveFinal path (cs, us, cu)). wellFormedChunk chunk"
    "length (saveFinal path (cs, us, cu)) \<le> Suc (length cs)"
    by auto
  have "length (splitByHeaders text path) \<le> length (saveFinal path (cs, us, cu))"
    using False f by (simp add: splitByHeaders_def Let_def)
  moreover have "\<forall>chunk \<in> set (splitByHeaders text path). wellFormedChunk chunk"
    using False f fin(1) by (simp add: splitByHeaders_def Let_def)
  ultimately show ?thesis
    using fin(2) n by (auto simp: wellFormedChunk_def)
qed

theorem splitByHeaders_chunks_witness:
  "sectionA \<in> set (splitByHeaders introText ''README.md'') \<and>
   sectionHeading sectionA \<noteq> [] \<and>
   1 \<le> level (metadata sectionA) \<and> level (metadata sectionA) \<le> 6 \<and>
   wordCount (metadata sectionA) =
     length (filter (\<lambda>word. word \<noteq> []) (splitRegex isSpace (content sectionA))) \<and>
   length (splitByHeaders introText ''README.md'')
     \<le> length (filter isHeadingLine (splitChar (CHR 0x0A) introText [])) + 1"
proof -
  have "sectionA \<in> set (splitByHeaders introText ''README.md'')"
    by (simp add: introText_chunks)
  with splitByHeaders_chunks [of introText "''README.md''"] show ?thesis
    by blast
qed

text \<open>
  C7 fails on the code. At a heading line whose heading is empty after trimming, the
  open chunk is saved before the heading is examined and stays open afterwards, so it is
  saved a second time with the lines that follow. The text with the empty heading gives
  two chunks for section \<open>A\<close>; the text without that line gives one.
\<close>

theorem empty_heading_emits_twice:
  "splitByHeaders emptyHeadingText ''README.md'' =
     [\<lparr>chunkId = ''readme-md-a'', filePath = ''README.md'', sectionHeading = ''A'',
       content = ''foo'', embedding = None, metadata = \<lparr>level = 1, wordCount = 1\<rparr>\<rparr>,
      \<lparr>chunkId = ''readme-md-a-1'', filePath = ''README.md'', sectionHeading = ''A'',
       content = ''foo'' @ newline @ ''bar'', embedding = None,
       metadata = \<lparr>level = 1, wordCount = 2\<rparr>\<rparr>] \<and>
   splitByHeaders emptyHeadingDeleted ''README.md'' =
     [\<lparr>chunkId = ''readme-md-a'', filePath = ''README.md'', sectionHeading = ''A'',
       content = ''foo'' @ newline @ ''bar'', embedding = None,
       metadata = \<lparr>level = 1, wordCount = 2\<rparr>\<rparr>]"
  by code_simp

section \<open>The vector store's results\<close>

subsection \<open>Cosine similarity\<close>

lemma maxValue_pos: "0 < maxValue"
  by (simp add: maxValue_def)

lemma number_zero [simp]: "number 0 = Fin 0"
  using maxValue_pos by (simp add: number_def)
















text \<open>The components of a generated embedding have absolute value at most 1.\<close>

lemma member_le_vectorNorm:
  assumes "x \<in> set v"
  shows "\<bar>x\<bar> \<le> vectorNorm v"
proof -
  have nonneg: "0 \<le> (\<Sum>val \<leftarrow> w. val * val)" for w :: "real list"
    by (induction w) simp_all
  have "x * x \<le> (\<Sum>val \<leftarrow> v. val * val)"
    using assms
  proof (induction v)
    case Nil
    then show ?case by simp
  next
    case (Cons y ys)
    show ?case
    proof (cases "x = y")
      case True
      with nonneg [of ys] show ?thesis by simp
    next
      case False
      with Cons have "x * x \<le> (\<Sum>val \<leftarrow> ys. val * val)" by simp
      moreover have "0 \<le> y * y" by simp
      ultimately have "x * x \<le> y * y + (\<Sum>val \<leftarrow> ys. val * val)"
        by (rule add_increasing [rotated])
      then show ?thesis by simp
    qed
  qed
  then have "sqrt (x * x) \<le> vectorNorm v"
    unfolding vectorNorm_def by (rule real_sqrt_le_mono)
  then show ?thesis by simp
qed

lemma generateEmbedding_unit:
  assumes "generateEmbedding random text = Inr q" and "\<forall>i. 0 \<le> random i \<and> random i < 1"
  shows "\<forall>v\<in>set q. unitValue v"
proof -
  let ?words = "filter (\<lambda>word. length word > 0) (splitRegex isSpace (toLowerCase text))"
  let ?raw = "rawEmbedding ?words"
  from assms(1) consider
    (zero) "q = replicate 128 (Fin 0)"
    | (normal) "0 < vectorNorm ?raw" "q = map (\<lambda>val. Fin (val / vectorNorm ?raw)) ?raw"
    | (random) "q = map (\<lambda>i. Fin ((random i - 0.5) * 0.01)) [0 ..< 128]"
    by (auto simp: generateEmbedding_def Let_def split: if_splits)
  then show ?thesis
  proof cases
    case zero
    then show ?thesis by (simp add: unitValue_def)
  next
    case normal
    show ?thesis
    proof
      fix v assume "v \<in> set q"
      with normal(2) obtain val where val: "val \<in> set ?raw" "v = Fin (val / vectorNorm ?raw)"
        by auto
      from member_le_vectorNorm [OF val(1)] normal(1) have "\<bar>val / vectorNorm ?raw\<bar> \<le> 1"
        by simp
      with val(2) show "unitValue v" by (simp add: unitValue_def)
    qed
  next
    case random
    show ?thesis
    proof
      fix v assume "v \<in> set q"
      with random obtain i where v: "v = Fin ((random i - 0.5) * 0.01)" by auto
      from assms(2) have "0 \<le> random i" "random i < 1" by simp_all
      then have "\<bar>(random i - 0.5) * 0.01\<bar> \<le> 1" by (simp add: abs_mult abs_if)
      with v show "unitValue v" by (simp add: unitValue_def)
    qed
  qed
qed




subsection \<open>Similarity search\<close>

lemma set_insertBy [simp]: "set (insertBy cmp x ys) = insert x (set ys)"
  by (induction ys) auto

lemma set_sortBy [simp]: "set (sortBy cmp xs) = set xs"
  by (induction xs) (auto simp: sortBy_def)

lemma sorted_insertBy_score:
  assumes "sorted_wrt (\<lambda>a b. snd b \<le> (snd a :: real)) ys"
  shows "sorted_wrt (\<lambda>a b. snd b \<le> snd a) (insertBy (\<lambda>a b. snd b - snd a) x ys)"
  using assms by (induction ys) auto

lemma sorted_sortBy_score:
  "sorted_wrt (\<lambda>a b. snd b \<le> (snd a :: real)) (sortBy (\<lambda>a b. snd b - snd a) xs)"
proof (induction xs)
  case Nil
  then show ?case by (simp add: sortBy_def)
next
  case (Cons x xs)
  from sorted_insertBy_score [OF Cons, of x] show ?case
    by (simp add: sortBy_def)
qed

lemma sliceFromStart_take: "\<exists>k. sliceFromStart xs n = take k xs"
  by (auto simp: sliceFromStart_def)

lemma length_sliceFromStart: "0 \<le> n \<Longrightarrow> int (length (sliceFromStart xs n)) \<le> n"
  by (simp add: sliceFromStart_def)

lemma processRow_Some:
  assumes "processRow cfg qe row = Some (chunk, s)"
  shows "\<exists>emb. embedding chunk = Some emb \<and> cosineSimilarity qe emb = Fin s \<and>
               jge (Fin s) (similarityThreshold cfg)"
  using assms
  by (auto simp: processRow_def split: if_splits option.splits jsnum.splits)

lemma axis_similarities:
  "cosineSimilarity [Fin 1, Fin 0] [Fin (3 / 5), Fin (4 / 5)] = Fin (3 / 5)"
  "cosineSimilarity [Fin 1, Fin 0] [Fin 1, Fin 0] = Fin 1"
  "cosineSimilarity [Fin 1, Fin 0] [Fin 0, Fin 1] = Fin 0"
  by (simp_all add: cosineSimilarity_def cosineSimilarityBody_def number_def maxValue_def)

lemma exampleStore_rows:
  "processRow (config exampleStore) [Fin 1, Fin 0] rowA = Some (chunkA, 3 / 5)"
  "processRow (config exampleStore) [Fin 1, Fin 0] rowB = Some (chunkB, 1)"
  "processRow (config exampleStore) [Fin 1, Fin 0] rowC = None"
  by (simp_all add: processRow_def exampleStore_def rowA_def rowB_def rowC_def chunkA_def chunkB_def
      axis_similarities jge_def)

lemma exampleStore_search:
  "searchSimilar axisEmbedding exampleStore ''alpha'' 5 = Inr [chunkB, chunkA]"
proof -
  have "List.map_filter (processRow (config exampleStore) [Fin 1, Fin 0]) [rowA, rowB, rowC]
          = [(chunkA, 3 / 5), (chunkB, 1)]"
    by (simp add: map_filter_simps exampleStore_rows)
  moreover have "sortBy (\<lambda>a b. snd b - snd a) [(chunkA, 3 / 5 :: real), (chunkB, 1)]
          = [(chunkB, 1), (chunkA, 3 / 5)]"
    by (simp add: sortBy_def)
  moreover have "db exampleStore = Some (Inr [rowA, rowB, rowC])" "isInitialized exampleStore"
    "maxResults (config exampleStore) = 10"
    by (simp_all add: exampleStore_def)
  moreover have "trim ''alpha'' \<noteq> []"
    by (simp add: trim_def isSpace_def)
  ultimately show ?thesis
    by (simp add: searchSimilar_def axisEmbedding_def sliceFromStart_def)
qed

text \<open>
  C5. For a store configured with a non-negative \<open>maxResults\<close> and a positive
  \<open>topK\<close>, every chunk that \<open>searchSimilar\<close> returns has a cosine similarity to the
  query embedding of at least \<open>similarityThreshold\<close>, the chunks are in descending
  order of that similarity, and there are at most \<open>min(topK, maxResults)\<close> of them.
  The result is a list of chunks, which have no similarity field.
\<close>

theorem searchSimilar_results:
  assumes ok: "searchSimilar embedQuery vs query topK = Inr results"
    and cfg: "0 \<le> maxResults (config vs)" and pos: "0 < topK"
  shows "(results = [] \<or>
          (\<exists>queryEmbedding. embedQuery query = Inr queryEmbedding \<and>
             (\<forall>chunk \<in> set results. \<exists>emb similarity.
                 embedding chunk = Some emb \<and>
                 cosineSimilarity queryEmbedding emb = Fin similarity \<and>
                 jge (Fin similarity) (similarityThreshold (config vs))) \<and>
             sorted_wrt (\<lambda>c1 c2. similarityOf queryEmbedding c2 \<le> similarityOf queryEmbedding c1)
               results)) \<and>
         int (length results) \<le> min topK (maxResults (config vs))"
proof (cases "results = []")
  case True
  with cfg pos show ?thesis by auto
next
  case False
  with ok obtain qe rows where qe: "embedQuery query = Inr qe"
    and res: "results = map fst (sliceFromStart
                (sortBy (\<lambda>a b. snd b - snd a) (List.map_filter (processRow (config vs) qe) rows))
                (min topK (maxResults (config vs))))"
    by (auto simp: searchSimilar_def Let_def split: option.splits if_splits sum.splits error.splits)
  let ?scored = "List.map_filter (processRow (config vs) qe) rows"
  let ?sorted = "sortBy (\<lambda>a b. snd b - snd a) ?scored"
  obtain k where k: "sliceFromStart ?sorted (min topK (maxResults (config vs))) = take k ?sorted"
    using sliceFromStart_take by blast
  have scored: "\<exists>emb. embedding chunk = Some emb \<and> cosineSimilarity qe emb = Fin s \<and>
                  jge (Fin s) (similarityThreshold (config vs))"
    if "(chunk, s) \<in> set ?scored" for chunk s
  proof -
    from that obtain row where "processRow (config vs) qe row = Some (chunk, s)"
      by (auto simp: List.map_filter_def)
    then show ?thesis by (rule processRow_Some)
  qed
  have mem: "\<exists>emb similarity. embedding chunk = Some emb \<and>
               cosineSimilarity qe emb = Fin similarity \<and>
               jge (Fin similarity) (similarityThreshold (config vs))"
    if "chunk \<in> set results" for chunk
  proof -
    from that res k obtain s where "(chunk, s) \<in> set (take k ?sorted)" by auto
    then have "(chunk, s) \<in> set ?scored" by (auto dest: in_set_takeD)
    from scored [OF this] show ?thesis by blast
  qed
  have score: "similarityOf qe (fst p) = snd p" if "p \<in> set ?scored" for p
    using scored [of "fst p" "snd p"] that by (auto simp: similarityOf_def)
  have "sorted_wrt (\<lambda>a b. snd b \<le> snd a) (take k ?sorted)"
    using sorted_sortBy_score by (rule sorted_wrt_take)
  then have "sorted_wrt (\<lambda>a b. similarityOf qe (fst b) \<le> similarityOf qe (fst a)) (take k ?sorted)"
  proof (rule sorted_wrt_mono_rel [rotated])
    fix a b
    assume "a \<in> set (take k ?sorted)" and "b \<in> set (take k ?sorted)" and "snd b \<le> snd a"
    then have "a \<in> set ?scored" and "b \<in> set ?scored" and "snd b \<le> snd a"
      by (auto dest: in_set_takeD)
    then show "similarityOf qe (fst b) \<le> similarityOf qe (fst a)"
      by (simp add: score)
  qed
  then have srt: "sorted_wrt (\<lambda>c1 c2. similarityOf qe c2 \<le> similarityOf qe c1) results"
    by (simp add: res k sorted_wrt_map)
  have "0 \<le> min topK (maxResults (config vs))"
    using pos cfg by simp
  from length_sliceFromStart [OF this] have "int (length results) \<le> min topK (maxResults (config vs))"
    by (simp add: res)
  with qe mem srt show ?thesis by blast
qed

theorem searchSimilar_results_witness:
  "searchSimilar axisEmbedding exampleStore ''alpha'' 5 = Inr [chunkB, chunkA] \<and>
   0 \<le> maxResults (config exampleStore) \<and>
   similarityOf [Fin 1, Fin 0] chunkA \<le> similarityOf [Fin 1, Fin 0] chunkB \<and>
   int (length [chunkB, chunkA]) \<le> min 5 (maxResults (config exampleStore))"
proof -
  have cfg: "0 \<le> maxResults (config exampleStore)"
    by (simp add: exampleStore_def)
  have pos: "(0 :: int) < 5" by simp
  from searchSimilar_results [OF exampleStore_search cfg pos]
  have "similarityOf [Fin 1, Fin 0] chunkA \<le> similarityOf [Fin 1, Fin 0] chunkB"
    and "int (length [chunkB, chunkA]) \<le> min 5 (maxResults (config exampleStore))"
    by (auto simp: axisEmbedding_def)
  with exampleStore_search cfg show ?thesis
    by blast
qed

subsection \<open>Embeddings\<close>

lemma length_rawEmbedding [simp]: "length (rawEmbedding words) = 128"
  by (simp add: rawEmbedding_def)

lemma vectorNorm_pos:
  assumes "x \<in> set v" and "x \<noteq> 0"
  shows "0 < vectorNorm v"
proof -
  have nonneg: "0 \<le> (\<Sum>val \<leftarrow> w. val * val)" for w :: "real list"
    by (induction w) simp_all
  have "0 < (\<Sum>val \<leftarrow> v. val * val)"
    using assms(1)
  proof (induction v)
    case Nil
    then show ?case by simp
  next
    case (Cons y ys)
    show ?case
    proof (cases "x = y")
      case True
      with assms(2) have "0 < y * y" by (simp add: power2_eq_square [symmetric])
      with nonneg [of ys] show ?thesis by simp
    next
      case False
      with Cons have "0 < (\<Sum>val \<leftarrow> ys. val * val)" by simp
      moreover have "0 \<le> y * y" by simp
      ultimately have "0 < y * y + (\<Sum>val \<leftarrow> ys. val * val)" by (rule add_nonneg_pos [rotated])
      then show ?thesis by simp
    qed
  qed
  then show ?thesis by (simp add: vectorNorm_def)
qed

text \<open>
  A text of one word never reaches the fallback on \<open>Math.random()\<close>: the first two
  components of its vector before normalisation are \<open>sin(h / 10)\<close> and
  \<open>sin((h + 1) / 10) * cos(1 / 20)\<close> for the hash \<open>h\<close> of the word, and two sines at a
  distance of \<open>1 / 10\<close> are not both zero.
\<close>

lemma adjacent_sines:
  fixes h :: real
  shows "sin (h / 10) \<noteq> 0 \<or> sin ((h + 1) / 10) \<noteq> 0"
proof (rule ccontr)
  assume "\<not> ?thesis"
  then obtain i j :: int where i: "h / 10 = of_int i * pi" and j: "(h + 1) / 10 = of_int j * pi"
    by (auto simp: sin_zero_iff_int2)
  have "(h + 1) / 10 - h / 10 = 1 / 10" by (simp add: field_simps)
  with i j have eq: "of_int (j - i) * pi = 1 / 10" by (simp add: algebra_simps)
  consider "j - i \<le> 0" | "1 \<le> j - i" by linarith
  then show False
  proof cases
    case 1
    then have "of_int (j - i) * pi \<le> 0"
      by (intro mult_nonpos_nonneg) simp_all
    with eq show False by simp
  next
    case 2
    then have "1 * pi \<le> of_int (j - i) * pi"
      by (intro mult_right_mono) simp_all
    with pi_ge_two eq show False by simp
  qed
qed

lemma single_word_norm:
  "0 < vectorNorm (rawEmbedding [word])"
proof -
  let ?h = "real (simpleHash word)"
  have zero: "rawEmbedding [word] ! 0 = sin (?h / 10)"
    by (simp add: rawEmbedding_def feature_def)
  have "rawEmbedding [word] ! 1 = feature [word] 0 1"
    by (simp add: rawEmbedding_def)
  then have one: "rawEmbedding [word] ! 1 = sin ((?h + 1) / 10) * cos (1 / 20)"
    by (simp add: feature_def add.commute)
  have "0 < cos (1 / 20 :: real)"
    using pi_ge_two by (intro cos_gt_zero) simp_all
  with adjacent_sines [of ?h]
  consider "rawEmbedding [word] ! 0 \<noteq> 0" | "rawEmbedding [word] ! 1 \<noteq> 0"
    using zero one by auto
  then show ?thesis
  proof cases
    case 1
    moreover have "rawEmbedding [word] ! 0 \<in> set (rawEmbedding [word])"
      by (rule nth_mem) simp
    ultimately show ?thesis by (rule vectorNorm_pos [rotated])
  next
    case 2
    moreover have "rawEmbedding [word] ! 1 \<in> set (rawEmbedding [word])"
      by (rule nth_mem) simp
    ultimately show ?thesis by (rule vectorNorm_pos [rotated])
  qed
qed

text \<open>
  What holds of \<open>generateEmbedding\<close>: for every text but the empty string it returns a
  vector of length 128, the zero vector when the text is white space only; and for a
  text of one word the vector does not depend on the values of \<open>Math.random()\<close>.
\<close>

lemma generateEmbedding_nonempty:
  "(text \<noteq> [] \<longrightarrow> (\<exists>v. generateEmbedding random text = Inr v \<and> length v = 128)) \<and>
   (text \<noteq> [] \<and> trim text = [] \<longrightarrow> generateEmbedding random text = Inr (replicate 128 (Fin 0))) \<and>
   (filter (\<lambda>word. length word > 0) (splitRegex isSpace (toLowerCase text)) = [word]
      \<longrightarrow> generateEmbedding random text = generateEmbedding random' text)"
  using single_word_norm [of word] by (simp add: generateEmbedding_def Let_def)

text \<open>
  C4 fails on the code. The first guard of \<open>generateEmbedding\<close> rejects the empty string
  with an error, ahead of the branch that answers a text without characters other than
  white space with the zero vector.
\<close>

theorem generateEmbedding_empty_text:
  "generateEmbedding zeroRandom [] =
     Inl (Error ''Failed to generate embedding: Error: Text input is required and must be a string'')"
  by (simp add: generateEmbedding_def)

end
